theory Spec2Isabelle
  imports Complex_Main
begin

section \<open>Values of the request body\<close>

text \<open>
  \<open>express.json()\<close> parses the request body, so \<open>req.body\<close> and its fields are JSON
  values, or \<open>undefined\<close>. A JSON number is a finite double, that is a rational number.
\<close>

datatype jsval =
    JUndefined
  | JNull
  | JBool bool
  | JNum rat
  | JStr string
  | JArr "jsval list"
  | JObj "(string \<times> jsval) list"

text \<open>JavaScript truthiness, as tested by \<open>!x\<close> and \<open>if (x)\<close>.\<close>

fun truthy :: "jsval \<Rightarrow> bool" where
  "truthy JUndefined = False"
| "truthy JNull = False"
| "truthy (JBool b) = b"
| "truthy (JNum n) = (n \<noteq> 0)"
| "truthy (JStr s) = (s \<noteq> [])"
| "truthy (JArr xs) = True"
| "truthy (JObj kvs) = True"

text \<open>
  \<open>req.body\<close> is the parsed object or array, and \<open>undefined\<close> when no body was parsed
  (express 5; express 4 leaves an empty object there). Destructuring
  \<open>const { username, email, password } = req.body\<close> throws a \<open>TypeError\<close> when
  \<open>req.body\<close> is \<open>undefined\<close> or \<open>null\<close>. Otherwise it reads the three properties:
  a key that an object does not have reads as \<open>undefined\<close>, and so do these three names
  on a body that is not an object.
\<close>

definition nullish :: "jsval \<Rightarrow> bool" where
  "nullish v = (v = JUndefined \<or> v = JNull)"

definition body_prop :: "jsval \<Rightarrow> string \<Rightarrow> jsval" where
  "body_prop body k =
     (case body of
        JObj kvs \<Rightarrow> (case map_of kvs k of None \<Rightarrow> JUndefined | Some v \<Rightarrow> v)
      | _ \<Rightarrow> JUndefined)"

section \<open>Process environment and per-request inputs\<close>

text \<open>\<open>process.env\<close>: a variable is a string, or \<open>undefined\<close> (\<open>None\<close>).\<close>

record process_env =
  MONGO_URI :: "string option"
  JWT_SECRET :: "string option"
  NODE_ENV :: "string option"

text \<open>\<open>!process.env.X\<close> holds when the variable is undefined or the empty string.\<close>

definition env_truthy :: "string option \<Rightarrow> bool" where
  "env_truthy v = (case v of None \<Rightarrow> False | Some s \<Rightarrow> s \<noteq> [])"

text \<open>
  What a request reads from outside the program: the clock, the random salt drawn by
  \<open>bcryptjs\<close>, the identifier that \<open>new User\<close> generates, and whether a round trip to
  the database fails.
\<close>

record world =
  now :: nat
  salt :: string
  fresh_id :: nat
  find_fault :: bool
  save_fault :: bool

text \<open>
  The parts of the libraries that this repository does not contain are parameters: the
  one-way function and the comparison of \<open>bcryptjs\<close>, and what mongoose does with a value
  that is not a string where the schema says \<open>String\<close> (\<open>None\<close> is a cast error).
\<close>

record lib =
  bcrypt_hash :: "string \<Rightarrow> nat \<Rightarrow> string \<Rightarrow> string"
  bcrypt_compare :: "string \<Rightarrow> string \<Rightarrow> bool"
  cast_other :: "jsval \<Rightarrow> string option"
  filter_other :: "jsval \<Rightarrow> (string \<Rightarrow> bool) option"

text \<open>
  Modelled from the spec: the password hasher \<open>bcryptjs\<close>, which is not part of the
  repository, as any pair of a hash function (plaintext, cost, salt) and a verify function
  (plaintext, digest) with the contract that the spec states for it:
  \<open>verify(plaintext, hash(plaintext))\<close> is true for every non-empty plaintext, and a
  digest is never equal to the plaintext.
\<close>

typedef bcryptjs =
  "{(h :: string \<Rightarrow> nat \<Rightarrow> string \<Rightarrow> string, c :: string \<Rightarrow> string \<Rightarrow> bool).
      \<forall>p r s. p \<noteq> [] \<longrightarrow> c p (h p r s) \<and> h p r s \<noteq> p}"
  by (rule exI [of _ "(\<lambda>p r s. CHR ''$'' # p, \<lambda>p d. True)"]) simp

text \<open>The libraries with this hasher in the place of \<open>bcryptjs\<close>.\<close>

definition use_bcryptjs :: "bcryptjs \<Rightarrow> lib \<Rightarrow> lib" where
  "use_bcryptjs B L =
     L\<lparr>bcrypt_hash := fst (Rep_bcryptjs B), bcrypt_compare := snd (Rep_bcryptjs B)\<rparr>"

datatype error =
    TypeError
  | CastError string
  | ValidationError string
  | DuplicateKey string
  | MongoNetworkError
  | IllegalArguments
  | JsonWebTokenError
  | JwtSecretNotDefined

section \<open>The User model\<close>

text \<open>
  \<open>userSchema\<close>: \<open>username\<close>, \<open>email\<close> and \<open>password\<close> are required strings,
  \<open>username\<close> and \<open>email\<close> carry a unique index, and \<open>timestamps\<close> adds
  \<open>createdAt\<close> and \<open>updatedAt\<close>. \<open>oid\<close> is the document's \<open>_id\<close>. The collection is
  the list of its documents in insertion order.
\<close>

record user_doc =
  oid :: nat
  username :: string
  email :: string
  password :: string
  createdAt :: nat
  updatedAt :: nat

type_synonym collection = "user_doc list"

text \<open>\<open>User.findOne({ email })\<close>: the first document whose email the filter accepts.\<close>

definition email_filter :: "lib \<Rightarrow> jsval \<Rightarrow> (string \<Rightarrow> bool) option" where
  "email_filter L v = (case v of JStr s \<Rightarrow> Some (\<lambda>e. e = s) | _ \<Rightarrow> filter_other L v)"

definition findOne :: "lib \<Rightarrow> world \<Rightarrow> collection \<Rightarrow> jsval \<Rightarrow> error + user_doc option" where
  "findOne L w db v =
     (if find_fault w then Inl MongoNetworkError
      else case email_filter L v of
             None \<Rightarrow> Inl (CastError ''email'')
           | Some p \<Rightarrow> Inr (find (\<lambda>u. p (user_doc.email u)) db))"

text \<open>\<open>new User({ username, email, password })\<close>: the given values and a generated \<open>_id\<close>.\<close>

record new_user =
  nu_id :: nat
  nu_username :: jsval
  nu_email :: jsval
  nu_password :: jsval

definition new_User :: "world \<Rightarrow> jsval \<Rightarrow> jsval \<Rightarrow> jsval \<Rightarrow> new_user" where
  "new_User w un em pw =
     \<lparr>nu_id = fresh_id w, nu_username = un, nu_email = em, nu_password = pw\<rparr>"

text \<open>A path of type \<open>String\<close> with \<open>required: true\<close>: the value casts to a non-empty string.\<close>

definition castString :: "lib \<Rightarrow> jsval \<Rightarrow> string option" where
  "castString L v = (case v of JStr s \<Rightarrow> Some s | _ \<Rightarrow> cast_other L v)"

definition validate_path :: "lib \<Rightarrow> string \<Rightarrow> jsval \<Rightarrow> error + string" where
  "validate_path L path v =
     (case castString L v of
        None \<Rightarrow> Inl (ValidationError path)
      | Some s \<Rightarrow> if s = [] then Inl (ValidationError path) else Inr s)"

text \<open>
  \<open>newUser.save()\<close>: validation, then the insert, which fails when the database cannot
  be reached and which the unique indexes on \<open>_id\<close>, \<open>username\<close> and \<open>email\<close> may
  reject. On success the document, stamped with the time, is appended.
\<close>

definition save :: "lib \<Rightarrow> world \<Rightarrow> collection \<Rightarrow> new_user \<Rightarrow> error + (user_doc \<times> collection)" where
  "save L w db nu =
     (case validate_path L ''username'' (nu_username nu) of
        Inl e \<Rightarrow> Inl e
      | Inr un \<Rightarrow>
     (case validate_path L ''email'' (nu_email nu) of
        Inl e \<Rightarrow> Inl e
      | Inr em \<Rightarrow>
     (case validate_path L ''password'' (nu_password nu) of
        Inl e \<Rightarrow> Inl e
      | Inr pw \<Rightarrow>
        if save_fault w then Inl MongoNetworkError
        else if nu_id nu \<in> set (map oid db) then Inl (DuplicateKey ''_id'')
        else if un \<in> set (map user_doc.username db) then Inl (DuplicateKey ''username'')
        else if em \<in> set (map user_doc.email db) then Inl (DuplicateKey ''email'')
        else
          (let u = \<lparr>oid = nu_id nu, username = un, email = em, password = pw,
                    createdAt = now w, updatedAt = now w\<rparr>
           in Inr (u, db @ [u])))))"

text \<open>\<open>newUser._doc\<close>: the document as a plain object.\<close>

datatype field = ObjectId nat | Str string | Date nat | Num nat

type_synonym plain_object = "(string \<times> field) list"

definition doc :: "user_doc \<Rightarrow> plain_object" where
  "doc u =
     [(''username'', Str (username u)), (''email'', Str (email u)),
      (''password'', Str (password u)), (''_id'', ObjectId (oid u)),
      (''createdAt'', Date (createdAt u)), (''updatedAt'', Date (updatedAt u)),
      (''__v'', Num 0)]"

text \<open>\<open>const { password: pass, ...rest } = d\<close>: every property but \<open>password\<close>.\<close>

definition rest_without_password :: "plain_object \<Rightarrow> plain_object" where
  "rest_without_password d = filter (\<lambda>kv. fst kv \<noteq> ''password'') d"

section \<open>bcryptjs\<close>

text \<open>
  \<open>hashSync(s, 10)\<close> draws a salt for 10 rounds and hashes; \<open>compareSync(s, hash)\<close>
  compares. Both throw when an argument is not a string.
\<close>

definition hashSync :: "lib \<Rightarrow> world \<Rightarrow> jsval \<Rightarrow> nat \<Rightarrow> error + string" where
  "hashSync L w s rounds =
     (case s of JStr p \<Rightarrow> Inr (bcrypt_hash L p rounds (salt w)) | _ \<Rightarrow> Inl IllegalArguments)"

definition compareSync :: "lib \<Rightarrow> jsval \<Rightarrow> string \<Rightarrow> error + bool" where
  "compareSync L s h =
     (case s of JStr p \<Rightarrow> Inr (bcrypt_compare L p h) | _ \<Rightarrow> Inl IllegalArguments)"

section \<open>jsonwebtoken\<close>

text \<open>
  \<open>expiresIn: "4d"\<close> is a time span in the format of the \<open>ms\<close> package, of which
  this is the part with digits followed by a short unit name; the result is in
  milliseconds.
\<close>

definition is_digit :: "char \<Rightarrow> bool" where
  "is_digit c = (48 \<le> (of_char c :: nat) \<and> (of_char c :: nat) \<le> 57)"

definition digits_value :: "string \<Rightarrow> nat" where
  "digits_value ds = foldl (\<lambda>n c. 10 * n + ((of_char c :: nat) - 48)) 0 ds"

definition unit_ms :: "string \<Rightarrow> nat option" where
  "unit_ms u =
     (if u = ''ms'' then Some 1
      else if u = ''s'' then Some 1000
      else if u = ''m'' then Some (60 * 1000)
      else if u = ''h'' then Some (60 * 60 * 1000)
      else if u = ''d'' then Some (24 * 60 * 60 * 1000)
      else if u = ''w'' then Some (7 * 24 * 60 * 60 * 1000)
      else None)"

definition ms :: "string \<Rightarrow> nat option" where
  "ms str =
     (let ds = takeWhile is_digit str; u = dropWhile is_digit str
      in if ds = [] then None
         else case unit_ms u of None \<Rightarrow> None | Some k \<Rightarrow> Some (digits_value ds * k))"

text \<open>
  The token is kept symbolic: the payload \<open>{ id, iat, exp }\<close>, with both times in
  seconds, and the key that signed it. \<open>jwt.sign\<close> throws without a key and on a time
  span it cannot read.
\<close>

record jwt =
  jwt_id :: nat
  jwt_iat :: nat
  jwt_exp :: nat
  jwt_key :: string

definition jwt_sign :: "nat \<Rightarrow> string \<Rightarrow> string \<Rightarrow> nat \<Rightarrow> error + jwt" where
  "jwt_sign ident secret expiresIn t =
     (if secret = [] then Inl JsonWebTokenError
      else case ms expiresIn of
             None \<Rightarrow> Inl JsonWebTokenError
           | Some millis \<Rightarrow>
               Inr \<lparr>jwt_id = ident, jwt_iat = t div 1000,
                    jwt_exp = t div 1000 + millis div 1000, jwt_key = secret\<rparr>)"

section \<open>Responses\<close>

record cookie =
  name :: string
  val :: jwt
  httpOnly :: bool
  secure :: bool
  sameSite :: string
  maxAge :: nat

record response =
  status :: nat
  success :: bool
  message :: string
  user :: "plain_object option"
  set_cookie :: "cookie option"

definition json :: "nat \<Rightarrow> bool \<Rightarrow> string \<Rightarrow> response" where
  "json code ok msg =
     \<lparr>status = code, success = ok, message = msg, user = None, set_cookie = None\<rparr>"

definition access_cookie :: "process_env \<Rightarrow> jwt \<Rightarrow> cookie" where
  "access_cookie pe token =
     \<lparr>name = ''X_TTMS_access_token'', val = token, httpOnly = True,
      secure = (NODE_ENV pe = Some ''production''), sameSite = ''lax'',
      maxAge = 4 * 24 * 60 * 60 * 1000\<rparr>"

section \<open>signupController\<close>

text \<open>
  The body of the \<open>try\<close> block: the collection after the request, and either the
  exception thrown or the response sent. The destructuring of \<open>req.body\<close> is its first
  statement.
\<close>

definition signup_try ::
  "lib \<Rightarrow> process_env \<Rightarrow> world \<Rightarrow> collection \<Rightarrow> jsval \<Rightarrow> collection \<times> (error + response)"
where
  "signup_try L pe w db body =
     (if nullish body then (db, Inl TypeError)
      else
      let username = body_prop body ''username'';
          email = body_prop body ''email'';
          password = body_prop body ''password''
      in
      if \<not> truthy username \<or> \<not> truthy email \<or> \<not> truthy password then
        (db, Inr (json 400 False ''Username, email, and password are required!''))
      else
        (case findOne L w db email of
           Inl e \<Rightarrow> (db, Inl e)
         | Inr (Some userExists) \<Rightarrow>
             (db, Inr (json 409 False ''User already exists, please login''))
         | Inr None \<Rightarrow>
        (case hashSync L w password 10 of
           Inl e \<Rightarrow> (db, Inl e)
         | Inr hashedPassword \<Rightarrow>
        (case save L w db (new_User w username email (JStr hashedPassword)) of
           Inl e \<Rightarrow> (db, Inl e)
         | Inr (newUser, db') \<Rightarrow>
             if \<not> env_truthy (JWT_SECRET pe) then (db', Inl JwtSecretNotDefined)
             else
               (case jwt_sign (oid newUser) (case JWT_SECRET pe of None \<Rightarrow> [] | Some s \<Rightarrow> s)
                       ''4d'' (now w) of
                  Inl e \<Rightarrow> (db', Inl e)
                | Inr token \<Rightarrow>
                    (db', Inr \<lparr>status = 201, success = True,
                              message = ''User Created and Logged In Successfully'',
                              user = Some (rest_without_password (doc newUser)),
                              set_cookie = Some (access_cookie pe token)\<rparr>))))))"

text \<open>The \<open>catch\<close> block answers every exception with status 500.\<close>

definition signupController ::
  "lib \<Rightarrow> process_env \<Rightarrow> world \<Rightarrow> collection \<Rightarrow> jsval \<Rightarrow> collection \<times> response"
where
  "signupController L pe w db body =
     (case signup_try L pe w db body of
        (db', Inl error) \<Rightarrow> (db', json 500 False ''Server error during signup!'')
      | (db', Inr res) \<Rightarrow> (db', res))"

section \<open>loginController\<close>

definition login_try ::
  "lib \<Rightarrow> process_env \<Rightarrow> world \<Rightarrow> collection \<Rightarrow> jsval \<Rightarrow> collection \<times> (error + response)"
where
  "login_try L pe w db body =
     (if nullish body then (db, Inl TypeError)
      else
      let email = body_prop body ''email'';
          password = body_prop body ''password''
      in
      if \<not> truthy email \<or> \<not> truthy password then
        (db, Inr (json 400 False ''Email and password are required!''))
      else
        (case findOne L w db email of
           Inl e \<Rightarrow> (db, Inl e)
         | Inr None \<Rightarrow> (db, Inr (json 404 False ''User not found!''))
         | Inr (Some validUser) \<Rightarrow>
        (case compareSync L password (user_doc.password validUser) of
           Inl e \<Rightarrow> (db, Inl e)
         | Inr validPassword \<Rightarrow>
             if \<not> validPassword then (db, Inr (json 401 False ''Invalid credentials''))
             else if \<not> env_truthy (JWT_SECRET pe) then (db, Inl JwtSecretNotDefined)
             else
               (case jwt_sign (oid validUser) (case JWT_SECRET pe of None \<Rightarrow> [] | Some s \<Rightarrow> s)
                       ''4d'' (now w) of
                  Inl e \<Rightarrow> (db, Inl e)
                | Inr token \<Rightarrow>
                    (db, Inr \<lparr>status = 200, success = True, message = ''Login Success'',
                             user = Some (rest_without_password (doc validUser)),
                             set_cookie = Some (access_cookie pe token)\<rparr>)))))"

definition loginController ::
  "lib \<Rightarrow> process_env \<Rightarrow> world \<Rightarrow> collection \<Rightarrow> jsval \<Rightarrow> collection \<times> response"
where
  "loginController L pe w db body =
     (case login_try L pe w db body of
        (db', Inl error) \<Rightarrow> (db', json 500 False ''Internal server error during login.'')
      | (db', Inr res) \<Rightarrow> (db', res))"

section \<open>Start of the process\<close>

text \<open>
  \<open>connectDB\<close> exits with code 1 when \<open>MONGO_URI\<close> is missing or the connection fails;
  \<open>startServer\<close> exits with code 1 when the port is in use and only logs any other
  error of the server.
\<close>

datatype listen_result = Listening | EADDRINUSE | OtherError

datatype process_state = Exited nat | Serving | NotServing

definition connectDB :: "process_env \<Rightarrow> bool \<Rightarrow> nat option" where
  "connectDB pe connect_ok =
     (if \<not> env_truthy (MONGO_URI pe) then Some 1
      else if connect_ok then None
      else Some 1)"

definition startServer :: "listen_result \<Rightarrow> process_state" where
  "startServer r =
     (case r of Listening \<Rightarrow> Serving | EADDRINUSE \<Rightarrow> Exited 1 | OtherError \<Rightarrow> NotServing)"

definition startup :: "process_env \<Rightarrow> bool \<Rightarrow> listen_result \<Rightarrow> process_state" where
  "startup pe connect_ok r =
     (case connectDB pe connect_ok of Some code \<Rightarrow> Exited code | None \<Rightarrow> startServer r)"

section \<open>Example data\<close>

text \<open>
  A stand-in for \<open>bcryptjs\<close> that can be evaluated: the digest is the version prefix, the
  salt on 22 characters and the reversed plaintext. Values that are not strings are refused
  by the casts.
\<close>

definition demo_lib :: lib where
  "demo_lib =
     \<lparr>bcrypt_hash = (\<lambda>p rounds s. ''$2a$10$'' @ take 22 (s @ replicate 22 (CHR ''.'')) @ rev p),
      bcrypt_compare = (\<lambda>p h. length h = 29 + length p \<and> rev (drop 29 h) = p),
      cast_other = (\<lambda>v. None),
      filter_other = (\<lambda>v. None)\<rparr>"

definition demo_bcryptjs :: bcryptjs where
  "demo_bcryptjs = Abs_bcryptjs (bcrypt_hash demo_lib, bcrypt_compare demo_lib)"

definition demo_env :: process_env where
  "demo_env =
     \<lparr>MONGO_URI = Some ''mongodb://localhost/travel'', JWT_SECRET = Some ''s3cret'',
      NODE_ENV = Some ''production''\<rparr>"

definition demo_env_no_secret :: process_env where
  "demo_env_no_secret =
     \<lparr>MONGO_URI = Some ''mongodb://localhost/travel'', JWT_SECRET = None,
      NODE_ENV = Some ''production''\<rparr>"

definition demo_world :: world where
  "demo_world =
     \<lparr>now = 1700000000123, salt = ''abcdefghijklmnopqrstuv'', fresh_id = 2,
      find_fault = False, save_fault = False\<rparr>"

definition alice :: user_doc where
  "alice =
     \<lparr>oid = 1, username = ''alice'', email = ''alice@example.com'',
      password = ''$2a$10$0123456789012345678901dnalrednow'',
      createdAt = 1600000000000, updatedAt = 1600000000000\<rparr>"

definition bob :: user_doc where
  "bob =
     \<lparr>oid = 2, username = ''bob'', email = ''bob@example.com'',
      password = ''$2a$10$abcdefghijklmnopqrstuv2retnuh'',
      createdAt = 1700000000123, updatedAt = 1700000000123\<rparr>"

definition bob_signup :: jsval where
  "bob_signup =
     JObj [(''username'', JStr ''bob''), (''email'', JStr ''bob@example.com''),
      (''password'', JStr ''hunter2'')]"

definition alice_login :: jsval where
  "alice_login = JObj [(''email'', JStr ''alice@example.com''), (''password'', JStr ''wonderland'')]"

text \<open>A registration under a user name that is taken, and one with a number as password.\<close>

definition taken_name_signup :: jsval where
  "taken_name_signup =
     JObj [(''username'', JStr ''alice''), (''email'', JStr ''carol@example.com''),
      (''password'', JStr ''opensesame'')]"

definition numeric_password_signup :: jsval where
  "numeric_password_signup =
     JObj [(''username'', JStr ''dave''), (''email'', JStr ''dave@example.com''),
      (''password'', JNum 12345)]"

text \<open>Registrations that are refused, and logins that are refused.\<close>

definition no_password_signup :: jsval where
  "no_password_signup = JObj [(''username'', JStr ''alice''), (''email'', JStr ''alice@example.com'')]"

definition alice_again_signup :: jsval where
  "alice_again_signup =
     JObj [(''username'', JStr ''alice2''), (''email'', JStr ''alice@example.com''),
      (''password'', JStr ''rabbit'')]"

definition empty_password_signup :: jsval where
  "empty_password_signup =
     JObj [(''username'', JStr ''erin''), (''email'', JStr ''erin@example.com''),
      (''password'', JStr [])]"

definition no_password_login :: jsval where
  "no_password_login = JObj [(''email'', JStr ''alice@example.com'')]"

definition stranger_login :: jsval where
  "stranger_login = JObj [(''email'', JStr ''mallory@example.com''), (''password'', JStr ''guess'')]"

definition wrong_password_login :: jsval where
  "wrong_password_login =
     JObj [(''email'', JStr ''alice@example.com''), (''password'', JStr ''wonderlan'')]"

definition numeric_password_login :: jsval where
  "numeric_password_login =
     JObj [(''email'', JStr ''alice@example.com''), (''password'', JNum 12345)]"

definition object_email_login :: jsval where
  "object_email_login =
     JObj [(''email'', JObj [(''address'', JStr ''alice@example.com'')]),
           (''password'', JStr ''wonderland'')]"

definition empty_email_login :: jsval where
  "empty_email_login = JObj [(''email'', JStr []), (''password'', JStr ''wonderland'')]"

text \<open>A database that cannot be reached, and an environment without \<open>MONGO_URI\<close>.\<close>

definition offline_world :: world where
  "offline_world =
     \<lparr>now = 1700000000123, salt = ''abcdefghijklmnopqrstuv'', fresh_id = 2,
      find_fault = True, save_fault = True\<rparr>"

definition demo_env_no_uri :: process_env where
  "demo_env_no_uri = \<lparr>MONGO_URI = None, JWT_SECRET = Some ''s3cret'', NODE_ENV = None\<rparr>"

section \<open>Facts about the libraries\<close>

lemma ms_4d: "ms ''4d'' = Some 345600000"
  by (simp add: ms_def is_digit_def unit_ms_def digits_value_def)

lemma jwt_sign_4d:
  "secret \<noteq> [] \<Longrightarrow>
   jwt_sign i secret ''4d'' t =
     Inr \<lparr>jwt_id = i, jwt_iat = t div 1000, jwt_exp = t div 1000 + 345600, jwt_key = secret\<rparr>"
  by (simp add: jwt_sign_def ms_4d)

text \<open>The contract of the hasher.\<close>

lemma bcryptjs_contract:
  assumes "p \<noteq> []"
  shows "bcrypt_compare (use_bcryptjs B L) p (bcrypt_hash (use_bcryptjs B L) p r s)"
    and "bcrypt_hash (use_bcryptjs B L) p r s \<noteq> p"
  using Rep_bcryptjs [of B] assms by (auto simp: use_bcryptjs_def split: prod.splits)

lemma use_bcryptjs_others:
  "cast_other (use_bcryptjs B L) = cast_other L" "filter_other (use_bcryptjs B L) = filter_other L"
  by (simp_all add: use_bcryptjs_def)

lemma demo_bcrypt_hash:
  "bcrypt_hash demo_lib p r s = ''$2a$10$'' @ take 22 (s @ replicate 22 (CHR ''.'')) @ rev p"
  by (simp add: demo_lib_def)

lemma demo_bcrypt_compare:
  "bcrypt_compare demo_lib p h = (length h = 29 + length p \<and> rev (drop 29 h) = p)"
  by (simp add: demo_lib_def)

lemma Rep_demo_bcryptjs:
  "Rep_bcryptjs demo_bcryptjs = (bcrypt_hash demo_lib, bcrypt_compare demo_lib)"
  unfolding demo_bcryptjs_def
  by (rule Abs_bcryptjs_inverse) (auto simp: demo_bcrypt_hash demo_bcrypt_compare)

lemma use_demo_bcryptjs: "use_bcryptjs demo_bcryptjs demo_lib = demo_lib"
  by (simp add: use_bcryptjs_def Rep_demo_bcryptjs)

lemma env_truthy_Some: "env_truthy v \<Longrightarrow> \<exists>s. v = Some s \<and> s \<noteq> []"
  by (cases v) (simp_all add: env_truthy_def)

text \<open>A field that is present belongs to a body that can be destructured.\<close>

lemma present_not_nullish: "truthy (body_prop body k) \<Longrightarrow> \<not> nullish body"
  by (auto simp: nullish_def body_prop_def)

lemma supplied_not_nullish: "body_prop body k = v \<Longrightarrow> v \<noteq> JUndefined \<Longrightarrow> \<not> nullish body"
  by (auto simp: nullish_def body_prop_def)

lemma signup_try_unparsed:
  "nullish body \<Longrightarrow> signup_try L pe w db body = (db, Inl TypeError)"
  by (simp add: signup_try_def)

lemma login_try_unparsed:
  "nullish body \<Longrightarrow> login_try L pe w db body = (db, Inl TypeError)"
  by (simp add: login_try_def)

lemma signup_try_missing:
  "\<not> nullish body \<Longrightarrow>
   \<not> truthy (body_prop body ''username'') \<or> \<not> truthy (body_prop body ''email'')
     \<or> \<not> truthy (body_prop body ''password'') \<Longrightarrow>
   signup_try L pe w db body =
     (db, Inr (json 400 False ''Username, email, and password are required!''))"
  by (simp add: signup_try_def Let_def)

lemma signup_try_present:
  assumes "truthy (body_prop body ''username'')" "truthy (body_prop body ''email'')"
    "truthy (body_prop body ''password'')"
  shows "signup_try L pe w db body =
     (case findOne L w db (body_prop body ''email'') of
           Inl e \<Rightarrow> (db, Inl e)
         | Inr (Some userExists) \<Rightarrow>
             (db, Inr (json 409 False ''User already exists, please login''))
         | Inr None \<Rightarrow>
        (case hashSync L w (body_prop body ''password'') 10 of
           Inl e \<Rightarrow> (db, Inl e)
         | Inr hashedPassword \<Rightarrow>
        (case save L w db (new_User w (body_prop body ''username'') (body_prop body ''email'') (JStr hashedPassword)) of
           Inl e \<Rightarrow> (db, Inl e)
         | Inr (newUser, db') \<Rightarrow>
             if \<not> env_truthy (JWT_SECRET pe) then (db', Inl JwtSecretNotDefined)
             else
               (case jwt_sign (oid newUser) (case JWT_SECRET pe of None \<Rightarrow> [] | Some s \<Rightarrow> s)
                       ''4d'' (now w) of
                  Inl e \<Rightarrow> (db', Inl e)
                | Inr token \<Rightarrow>
                    (db', Inr \<lparr>status = 201, success = True,
                              message = ''User Created and Logged In Successfully'',
                              user = Some (rest_without_password (doc newUser)),
                              set_cookie = Some (access_cookie pe token)\<rparr>)))))"
  using assms present_not_nullish [of body]
  by (simp add: signup_try_def Let_def)

lemma signup_try_find_error:
  assumes "truthy (body_prop body ''username'')" "truthy (body_prop body ''email'')"
    "truthy (body_prop body ''password'')"
    and "findOne L w db (body_prop body ''email'') = Inl e"
  shows "signup_try L pe w db body = (db, Inl e)"
  using assms by (simp add: signup_try_present)

lemma signup_try_exists:
  assumes "truthy (body_prop body ''username'')" "truthy (body_prop body ''email'')"
    "truthy (body_prop body ''password'')"
    and "findOne L w db (body_prop body ''email'') = Inr (Some u)"
  shows "signup_try L pe w db body =
     (db, Inr (json 409 False ''User already exists, please login''))"
  using assms by (simp add: signup_try_present)

lemma signup_try_hash_error:
  assumes "truthy (body_prop body ''username'')" "truthy (body_prop body ''email'')"
    "truthy (body_prop body ''password'')"
    and "findOne L w db (body_prop body ''email'') = Inr None"
    and "hashSync L w (body_prop body ''password'') 10 = Inl e"
  shows "signup_try L pe w db body = (db, Inl e)"
  using assms by (simp add: signup_try_present)

lemma signup_try_save_error:
  assumes "truthy (body_prop body ''username'')" "truthy (body_prop body ''email'')"
    "truthy (body_prop body ''password'')"
    and "findOne L w db (body_prop body ''email'') = Inr None"
    and "hashSync L w (body_prop body ''password'') 10 = Inr h"
    and "save L w db (new_User w (body_prop body ''username'') (body_prop body ''email'') (JStr h)) = Inl e"
  shows "signup_try L pe w db body = (db, Inl e)"
  using assms by (simp add: signup_try_present)

lemma signup_try_no_secret:
  assumes "truthy (body_prop body ''username'')" "truthy (body_prop body ''email'')"
    "truthy (body_prop body ''password'')"
    and "findOne L w db (body_prop body ''email'') = Inr None"
    and "hashSync L w (body_prop body ''password'') 10 = Inr h"
    and "save L w db (new_User w (body_prop body ''username'') (body_prop body ''email'') (JStr h)) = Inr (u, db')"
    and "\<not> env_truthy (JWT_SECRET pe)"
  shows "signup_try L pe w db body = (db', Inl JwtSecretNotDefined)"
  using assms by (simp add: signup_try_present)

lemma signup_try_created:
  assumes "truthy (body_prop body ''username'')" "truthy (body_prop body ''email'')"
    "truthy (body_prop body ''password'')"
    and "findOne L w db (body_prop body ''email'') = Inr None"
    and "hashSync L w (body_prop body ''password'') 10 = Inr h"
    and "save L w db (new_User w (body_prop body ''username'') (body_prop body ''email'') (JStr h)) = Inr (u, db')"
    and "JWT_SECRET pe = Some secret" "secret \<noteq> []"
  shows "signup_try L pe w db body =
     (db', Inr \<lparr>status = 201, success = True,
                message = ''User Created and Logged In Successfully'',
                user = Some (rest_without_password (doc u)),
                set_cookie = Some (access_cookie pe
                  \<lparr>jwt_id = oid u, jwt_iat = now w div 1000,
                   jwt_exp = now w div 1000 + 345600, jwt_key = secret\<rparr>)\<rparr>)"
  using assms by (simp add: signup_try_present env_truthy_def jwt_sign_4d)

lemma save_appends:
  "save L w db nu = Inr (u, db') \<Longrightarrow>
   db' = db @ [u] \<and> oid u = nu_id nu \<and> castString L (nu_password nu) = Some (password u)
   \<and> castString L (nu_username nu) = Some (username u)
   \<and> castString L (nu_email nu) = Some (email u)
   \<and> createdAt u = now w \<and> updatedAt u = now w"
  by (auto simp: save_def validate_path_def Let_def split: sum.splits option.splits if_splits)

lemma rest_without_password_doc:
  "rest_without_password (doc u) =
     [(''username'', Str (username u)), (''email'', Str (email u)),
      (''_id'', ObjectId (oid u)),
      (''createdAt'', Date (createdAt u)), (''updatedAt'', Date (updatedAt u)),
      (''__v'', Num 0)]"
  by (simp add: rest_without_password_def doc_def)

lemma rest_has_no_password: "map_of (rest_without_password d) ''password'' = None"
  by (induction d) (auto simp: rest_without_password_def)

lemma rest_keeps_others:
  "k \<noteq> ''password'' \<Longrightarrow> map_of (rest_without_password d) k = map_of d k"
  by (induction d) (auto simp: rest_without_password_def)

lemma login_try_missing:
  "\<not> nullish body \<Longrightarrow>
   \<not> truthy (body_prop body ''email'') \<or> \<not> truthy (body_prop body ''password'') \<Longrightarrow>
   login_try L pe w db body = (db, Inr (json 400 False ''Email and password are required!''))"
  by (simp add: login_try_def Let_def)

lemma login_try_present:
  assumes "truthy (body_prop body ''email'')" "truthy (body_prop body ''password'')"
  shows "login_try L pe w db body =
     (case findOne L w db (body_prop body ''email'') of
           Inl e \<Rightarrow> (db, Inl e)
         | Inr None \<Rightarrow> (db, Inr (json 404 False ''User not found!''))
         | Inr (Some validUser) \<Rightarrow>
        (case compareSync L (body_prop body ''password'') (password validUser) of
           Inl e \<Rightarrow> (db, Inl e)
         | Inr validPassword \<Rightarrow>
             if \<not> validPassword then (db, Inr (json 401 False ''Invalid credentials''))
             else if \<not> env_truthy (JWT_SECRET pe) then (db, Inl JwtSecretNotDefined)
             else
               (case jwt_sign (oid validUser) (case JWT_SECRET pe of None \<Rightarrow> [] | Some s \<Rightarrow> s)
                       ''4d'' (now w) of
                  Inl e \<Rightarrow> (db, Inl e)
                | Inr token \<Rightarrow>
                    (db, Inr \<lparr>status = 200, success = True, message = ''Login Success'',
                             user = Some (rest_without_password (doc validUser)),
                             set_cookie = Some (access_cookie pe token)\<rparr>))))"
  using assms present_not_nullish [of body]
  by (simp add: login_try_def Let_def)

lemma login_try_find_error:
  assumes "truthy (body_prop body ''email'')" "truthy (body_prop body ''password'')"
    and "findOne L w db (body_prop body ''email'') = Inl e"
  shows "login_try L pe w db body = (db, Inl e)"
  using assms by (simp add: login_try_present)

lemma login_try_not_found:
  assumes "truthy (body_prop body ''email'')" "truthy (body_prop body ''password'')"
    and "findOne L w db (body_prop body ''email'') = Inr None"
  shows "login_try L pe w db body = (db, Inr (json 404 False ''User not found!''))"
  using assms by (simp add: login_try_present)

lemma login_try_compare_error:
  assumes "truthy (body_prop body ''email'')" "truthy (body_prop body ''password'')"
    and "findOne L w db (body_prop body ''email'') = Inr (Some u)"
    and "compareSync L (body_prop body ''password'') (password u) = Inl e"
  shows "login_try L pe w db body = (db, Inl e)"
  using assms by (simp add: login_try_present)

lemma login_try_invalid:
  assumes "truthy (body_prop body ''email'')" "truthy (body_prop body ''password'')"
    and "findOne L w db (body_prop body ''email'') = Inr (Some u)"
    and "compareSync L (body_prop body ''password'') (password u) = Inr False"
  shows "login_try L pe w db body = (db, Inr (json 401 False ''Invalid credentials''))"
  using assms by (simp add: login_try_present)

lemma login_try_no_secret:
  assumes "truthy (body_prop body ''email'')" "truthy (body_prop body ''password'')"
    and "findOne L w db (body_prop body ''email'') = Inr (Some u)"
    and "compareSync L (body_prop body ''password'') (password u) = Inr True"
    and "\<not> env_truthy (JWT_SECRET pe)"
  shows "login_try L pe w db body = (db, Inl JwtSecretNotDefined)"
  using assms by (simp add: login_try_present)

lemma login_try_ok:
  assumes "truthy (body_prop body ''email'')" "truthy (body_prop body ''password'')"
    and "findOne L w db (body_prop body ''email'') = Inr (Some u)"
    and "compareSync L (body_prop body ''password'') (password u) = Inr True"
    and "JWT_SECRET pe = Some secret" "secret \<noteq> []"
  shows "login_try L pe w db body =
     (db, Inr \<lparr>status = 200, success = True, message = ''Login Success'',
               user = Some (rest_without_password (doc u)),
               set_cookie = Some (access_cookie pe
                 \<lparr>jwt_id = oid u, jwt_iat = now w div 1000,
                  jwt_exp = now w div 1000 + 345600, jwt_key = secret\<rparr>)\<rparr>)"
  using assms by (simp add: login_try_present env_truthy_def jwt_sign_4d)

lemma findOne_string:
  "\<not> find_fault w \<Longrightarrow> findOne L w db (JStr s) = Inr (find (\<lambda>u. email u = s) db)"
  by (simp add: findOne_def email_filter_def)

lemma findOne_in_collection: "findOne L w db v = Inr (Some u) \<Longrightarrow> u \<in> set db"
  by (auto simp: findOne_def find_Some_iff split: if_splits option.splits)

subsection \<open>The example data, evaluated\<close>

lemma bob_signup_props:
  "body_prop bob_signup ''username'' = JStr ''bob''"
  "body_prop bob_signup ''email'' = JStr ''bob@example.com''"
  "body_prop bob_signup ''password'' = JStr ''hunter2''"
  by (simp_all add: bob_signup_def body_prop_def)

lemma alice_login_props:
  "body_prop alice_login ''email'' = JStr ''alice@example.com''"
  "body_prop alice_login ''password'' = JStr ''wonderland''"
  by (simp_all add: alice_login_def body_prop_def)

lemma demo_find_bob: "findOne demo_lib demo_world [alice] (JStr ''bob@example.com'') = Inr None"
  by (simp add: findOne_def email_filter_def demo_world_def alice_def)

lemma demo_find_alice:
  "findOne demo_lib demo_world [alice] (JStr ''alice@example.com'') = Inr (Some alice)"
  by (simp add: findOne_def email_filter_def demo_world_def alice_def)

lemma demo_hash:
  "hashSync demo_lib demo_world (JStr ''hunter2'') 10 = Inr ''$2a$10$abcdefghijklmnopqrstuv2retnuh''"
  by (simp add: hashSync_def demo_lib_def demo_world_def)

lemma demo_save:
  "save demo_lib demo_world [alice]
     (new_User demo_world (JStr ''bob'') (JStr ''bob@example.com'')
        (JStr ''$2a$10$abcdefghijklmnopqrstuv2retnuh'')) = Inr (bob, [alice, bob])"
  by (simp add: save_def new_User_def validate_path_def castString_def demo_world_def Let_def
      alice_def bob_def)

lemma demo_compare_alice:
  "compareSync demo_lib (JStr ''wonderland'') (password alice) = Inr True"
  by (simp add: compareSync_def demo_lib_def alice_def)

subsection \<open>The controllers around their \<open>try\<close> blocks\<close>

lemma json_simps:
  "status (json code ok msg) = code" "success (json code ok msg) = ok"
  "message (json code ok msg) = msg" "user (json code ok msg) = None"
  "set_cookie (json code ok msg) = None"
  by (simp_all add: json_def)

lemma signupController_thrown:
  "signup_try L pe w db body = (db', Inl e) \<Longrightarrow>
   signupController L pe w db body = (db', json 500 False ''Server error during signup!'')"
  by (simp add: signupController_def)

lemma signupController_sent:
  "signup_try L pe w db body = (db', Inr res) \<Longrightarrow>
   signupController L pe w db body = (db', res)"
  by (simp add: signupController_def)

lemma loginController_thrown:
  "login_try L pe w db body = (db', Inl e) \<Longrightarrow>
   loginController L pe w db body = (db', json 500 False ''Internal server error during login.'')"
  by (simp add: loginController_def)

lemma loginController_sent:
  "login_try L pe w db body = (db', Inr res) \<Longrightarrow>
   loginController L pe w db body = (db', res)"
  by (simp add: loginController_def)

lemma save_appends_one: "save L w db nu = Inr (u, db') \<Longrightarrow> db' = db @ [u]"
  by (simp add: save_appends)

text \<open>The insert of string fields that are new to a reachable database is accepted.\<close>

lemma save_accepts:
  assumes "n \<noteq> []" "m \<noteq> []" "h \<noteq> []" "\<not> save_fault w"
    and "fresh_id w \<notin> set (map oid db)" "n \<notin> set (map username db)"
    and "m \<notin> set (map email db)"
  shows "save L w db (new_User w (JStr n) (JStr m) (JStr h)) =
     Inr (\<lparr>oid = fresh_id w, username = n, email = m, password = h,
            createdAt = now w, updatedAt = now w\<rparr>,
          db @ [\<lparr>oid = fresh_id w, username = n, email = m, password = h,
                  createdAt = now w, updatedAt = now w\<rparr>])"
  using assms by (simp add: save_def new_User_def validate_path_def castString_def Let_def)

lemma save_taken_username:
  "n \<in> set (map username db) \<Longrightarrow> \<exists>e. save L w db (new_User w (JStr n) em pw) = Inl e"
  by (simp add: save_def new_User_def validate_path_def castString_def
      split: sum.splits option.splits)

lemma save_taken_username_error:
  assumes "n \<in> set (map username db)" "n \<noteq> []" "m \<noteq> []" "h \<noteq> []"
    and "\<not> save_fault w" "fresh_id w \<notin> set (map oid db)"
  shows "save L w db (new_User w (JStr n) (JStr m) (JStr h)) = Inl (DuplicateKey ''username'')"
  using assms by (simp add: save_def new_User_def validate_path_def castString_def)

text \<open>A stored record is found by its email, when the database answers.\<close>

lemma findOne_existing:
  assumes "\<not> find_fault w" "u \<in> set db"
  shows "\<exists>v. findOne L w db (JStr (email u)) = Inr (Some v) \<and> email v = email u"
proof (cases "find (\<lambda>x. email x = email u) db")
  case None
  with assms(2) show ?thesis
    by (auto simp: find_None_iff)
next
  case (Some v)
  then have "email v = email u"
    by (auto simp: find_Some_iff)
  with Some assms(1) show ?thesis
    by (simp add: findOne_string)
qed

text \<open>Every way \<open>signup_try\<close> can end.\<close>

lemma signup_try_cases:
  "signup_try L pe w db body = (db, Inr (json 400 False ''Username, email, and password are required!''))
   \<or> signup_try L pe w db body = (db, Inr (json 409 False ''User already exists, please login''))
   \<or> (\<exists>e. signup_try L pe w db body = (db, Inl e))
   \<or> (\<exists>u. signup_try L pe w db body = (db @ [u], Inl JwtSecretNotDefined))
   \<or> (\<exists>u secret. JWT_SECRET pe = Some secret \<and> secret \<noteq> [] \<and>
        signup_try L pe w db body =
          (db @ [u], Inr \<lparr>status = 201, success = True,
                message = ''User Created and Logged In Successfully'',
                user = Some (rest_without_password (doc u)),
                set_cookie = Some (access_cookie pe
                  \<lparr>jwt_id = oid u, jwt_iat = now w div 1000,
                   jwt_exp = now w div 1000 + 345600, jwt_key = secret\<rparr>)\<rparr>))"
proof (cases "truthy (body_prop body ''username'') \<and> truthy (body_prop body ''email'')
      \<and> truthy (body_prop body ''password'')")
  case False
  show ?thesis
  proof (cases "nullish body")
    case True
    from signup_try_unparsed [OF True] show ?thesis
      by blast
  next
    case parsed: False
    from signup_try_missing [OF parsed] False show ?thesis
      by blast
  qed
next
  case True
  then have present: "truthy (body_prop body ''username'')" "truthy (body_prop body ''email'')"
    "truthy (body_prop body ''password'')"
    by simp_all
  show ?thesis
  proof (cases "findOne L w db (body_prop body ''email'')")
    case (Inl e)
    then show ?thesis
      using signup_try_find_error [OF present] by blast
  next
    case (Inr found)
    show ?thesis
    proof (cases found)
      case (Some u)
      with Inr show ?thesis
        using signup_try_exists [OF present] by blast
    next
      case None
      with Inr have fresh: "findOne L w db (body_prop body ''email'') = Inr None"
        by simp
      show ?thesis
      proof (cases "hashSync L w (body_prop body ''password'') 10")
        case (Inl e)
        then show ?thesis
          using signup_try_hash_error [OF present fresh] by blast
      next
        case hashed: (Inr h)
        show ?thesis
        proof (cases "save L w db (new_User w (body_prop body ''username'')
              (body_prop body ''email'') (JStr h))")
          case (Inl e)
          then show ?thesis
            using signup_try_save_error [OF present fresh hashed] by blast
        next
          case (Inr saved)
          obtain u db' where saved: "saved = (u, db')"
            by (cases saved)
          with Inr have stored: "save L w db (new_User w (body_prop body ''username'')
              (body_prop body ''email'') (JStr h)) = Inr (u, db')"
            by simp
          have db': "db' = db @ [u]"
            using stored by (rule save_appends_one)
          show ?thesis
          proof (cases "env_truthy (JWT_SECRET pe)")
            case False
            from signup_try_no_secret [OF present fresh hashed stored False]
            show ?thesis
              using db' by blast
          next
            case True
            then obtain secret where secret: "JWT_SECRET pe = Some secret" "secret \<noteq> []"
              using env_truthy_Some by blast
            from signup_try_created [OF present fresh hashed stored secret]
            show ?thesis
              using db' secret by blast
          qed
        qed
      qed
    qed
  qed
qed

text \<open>Every way \<open>login_try\<close> can end.\<close>

lemma login_try_cases:
  "login_try L pe w db body = (db, Inr (json 400 False ''Email and password are required!''))
   \<or> login_try L pe w db body = (db, Inr (json 404 False ''User not found!''))
   \<or> login_try L pe w db body = (db, Inr (json 401 False ''Invalid credentials''))
   \<or> (\<exists>e. login_try L pe w db body = (db, Inl e))
   \<or> (\<exists>u secret. JWT_SECRET pe = Some secret \<and> secret \<noteq> [] \<and>
        login_try L pe w db body =
          (db, Inr \<lparr>status = 200, success = True, message = ''Login Success'',
               user = Some (rest_without_password (doc u)),
               set_cookie = Some (access_cookie pe
                 \<lparr>jwt_id = oid u, jwt_iat = now w div 1000,
                  jwt_exp = now w div 1000 + 345600, jwt_key = secret\<rparr>)\<rparr>))"
proof (cases "truthy (body_prop body ''email'') \<and> truthy (body_prop body ''password'')")
  case False
  show ?thesis
  proof (cases "nullish body")
    case True
    from login_try_unparsed [OF True] show ?thesis
      by blast
  next
    case parsed: False
    from login_try_missing [OF parsed] False show ?thesis
      by blast
  qed
next
  case True
  then have present: "truthy (body_prop body ''email'')" "truthy (body_prop body ''password'')"
    by simp_all
  show ?thesis
  proof (cases "findOne L w db (body_prop body ''email'')")
    case (Inl e)
    then show ?thesis
      using login_try_find_error [OF present] by blast
  next
    case (Inr found)
    show ?thesis
    proof (cases found)
      case None
      with Inr show ?thesis
        using login_try_not_found [OF present] by blast
    next
      case (Some u)
      with Inr have found: "findOne L w db (body_prop body ''email'') = Inr (Some u)"
        by simp
      show ?thesis
      proof (cases "compareSync L (body_prop body ''password'') (password u)")
        case (Inl e)
        then show ?thesis
          using login_try_compare_error [OF present found] by blast
      next
        case (Inr valid)
        show ?thesis
        proof (cases valid)
          case False
          with Inr have "compareSync L (body_prop body ''password'') (password u) = Inr False"
            by simp
          then show ?thesis
            using login_try_invalid [OF present found] by blast
        next
          case True
          with Inr have verified:
            "compareSync L (body_prop body ''password'') (password u) = Inr True"
            by simp
          show ?thesis
          proof (cases "env_truthy (JWT_SECRET pe)")
            case False
            from login_try_no_secret [OF present found verified False]
            show ?thesis by blast
          next
            case True
            then obtain secret where secret: "JWT_SECRET pe = Some secret" "secret \<noteq> []"
              using env_truthy_Some by blast
            from login_try_ok [OF present found verified secret]
            show ?thesis
              using secret by blast
          qed
        qed
      qed
    qed
  qed
qed

subsection \<open>More of the example data, evaluated\<close>

lemma no_password_signup_props:
  "body_prop no_password_signup ''username'' = JStr ''alice''"
  "body_prop no_password_signup ''email'' = JStr ''alice@example.com''"
  "body_prop no_password_signup ''password'' = JUndefined"
  by (simp_all add: no_password_signup_def body_prop_def)

lemma alice_again_signup_props:
  "body_prop alice_again_signup ''username'' = JStr ''alice2''"
  "body_prop alice_again_signup ''email'' = JStr ''alice@example.com''"
  "body_prop alice_again_signup ''password'' = JStr ''rabbit''"
  by (simp_all add: alice_again_signup_def body_prop_def)

lemma login_examples_props:
  "body_prop no_password_login ''email'' = JStr ''alice@example.com''"
  "body_prop no_password_login ''password'' = JUndefined"
  "body_prop stranger_login ''email'' = JStr ''mallory@example.com''"
  "body_prop stranger_login ''password'' = JStr ''guess''"
  "body_prop wrong_password_login ''email'' = JStr ''alice@example.com''"
  "body_prop wrong_password_login ''password'' = JStr ''wonderlan''"
  by (simp_all add: no_password_login_def stranger_login_def wrong_password_login_def
      body_prop_def)

lemma rejected_login_props:
  "body_prop numeric_password_login ''email'' = JStr ''alice@example.com''"
  "body_prop numeric_password_login ''password'' = JNum 12345"
  "body_prop object_email_login ''email'' = JObj [(''address'', JStr ''alice@example.com'')]"
  "body_prop object_email_login ''password'' = JStr ''wonderland''"
  by (simp_all add: numeric_password_login_def object_email_login_def body_prop_def)

lemma unparsed_props:
  "nullish JUndefined" "body_prop JUndefined k = JUndefined"
  by (simp_all add: nullish_def body_prop_def)

lemma demo_examples_parsed:
  "\<not> nullish no_password_signup" "\<not> nullish empty_password_signup"
  "\<not> nullish no_password_login" "\<not> nullish empty_email_login"
  by (simp_all add: nullish_def no_password_signup_def empty_password_signup_def
      no_password_login_def empty_email_login_def)

lemma demo_compare_number:
  "compareSync demo_lib (JNum 12345) h = Inl IllegalArguments"
  by (simp add: compareSync_def)

lemma demo_find_object:
  "findOne demo_lib demo_world [alice] (JObj [(''address'', JStr ''alice@example.com'')])
     = Inl (CastError ''email'')"
  by (simp add: findOne_def email_filter_def demo_lib_def demo_world_def)

lemma demo_find_mallory:
  "findOne demo_lib demo_world [alice] (JStr ''mallory@example.com'') = Inr None"
  by (simp add: findOne_def email_filter_def demo_world_def alice_def)

lemma demo_compare_wrong:
  "compareSync demo_lib (JStr ''wonderlan'') (password alice) = Inr False"
  by (simp add: compareSync_def demo_lib_def alice_def)

lemma taken_name_signup_props:
  "body_prop taken_name_signup ''username'' = JStr ''alice''"
  "body_prop taken_name_signup ''email'' = JStr ''carol@example.com''"
  "body_prop taken_name_signup ''password'' = JStr ''opensesame''"
  by (simp_all add: taken_name_signup_def body_prop_def)

lemma numeric_password_signup_props:
  "body_prop numeric_password_signup ''username'' = JStr ''dave''"
  "body_prop numeric_password_signup ''email'' = JStr ''dave@example.com''"
  "body_prop numeric_password_signup ''password'' = JNum 12345"
  by (simp_all add: numeric_password_signup_def body_prop_def)

lemma demo_find_carol:
  "findOne demo_lib demo_world [alice] (JStr ''carol@example.com'') = Inr None"
  by (simp add: findOne_def email_filter_def demo_world_def alice_def)

lemma demo_find_dave:
  "findOne demo_lib demo_world [alice] (JStr ''dave@example.com'') = Inr None"
  by (simp add: findOne_def email_filter_def demo_world_def alice_def)

lemma demo_hash_carol:
  "hashSync demo_lib demo_world (JStr ''opensesame'') 10 =
      Inr ''$2a$10$abcdefghijklmnopqrstuvemasesnepo''"
  by (simp add: hashSync_def demo_lib_def demo_world_def)

lemma demo_save_carol:
  "save demo_lib demo_world [alice]
      (new_User demo_world (JStr ''alice'') (JStr ''carol@example.com'')
         (JStr ''$2a$10$abcdefghijklmnopqrstuvemasesnepo'')) = Inl (DuplicateKey ''username'')"
  by (simp add: save_def new_User_def validate_path_def castString_def demo_world_def
        alice_def)

lemma demo_hash_number:
  "hashSync demo_lib demo_world (JNum 12345) 10 = Inl IllegalArguments"
  by (simp add: hashSync_def)

lemma offline_find: "findOne demo_lib offline_world [alice] v = Inl MongoNetworkError"
  by (simp add: findOne_def offline_world_def)

lemma demo_signup_bob:
  "signupController demo_lib demo_env demo_world [alice] bob_signup =
     ([alice, bob],
      \<lparr>status = 201, success = True,
       message = ''User Created and Logged In Successfully'',
       user = Some (rest_without_password (doc bob)),
       set_cookie = Some (access_cookie demo_env
         \<lparr>jwt_id = oid bob, jwt_iat = now demo_world div 1000,
          jwt_exp = now demo_world div 1000 + 345600, jwt_key = ''s3cret''\<rparr>)\<rparr>)"
  by (rule signupController_sent,
      rule signup_try_created [where h = "''$2a$10$abcdefghijklmnopqrstuv2retnuh''"])
    (simp_all add: bob_signup_props demo_find_bob demo_hash demo_save demo_env_def)

lemma demo_login_alice:
  "loginController demo_lib demo_env demo_world [alice] alice_login =
     ([alice],
      \<lparr>status = 200, success = True, message = ''Login Success'',
       user = Some (rest_without_password (doc alice)),
       set_cookie = Some (access_cookie demo_env
         \<lparr>jwt_id = oid alice, jwt_iat = now demo_world div 1000,
          jwt_exp = now demo_world div 1000 + 345600, jwt_key = ''s3cret''\<rparr>)\<rparr>)"
  by (rule loginController_sent, rule login_try_ok)
    (simp_all add: alice_login_props demo_find_alice demo_compare_alice demo_env_def)

section \<open>Successful registration and login\<close>

text \<open>
  Claim C1, as stated: every registration whose three fields are present and whose email
  matches no record is answered with status 201, a cookie and a new record. Three requests
  meet the premises and are answered with status 500 and no cookie: one arriving while
  \<open>JWT_SECRET\<close> is not set (the record is stored all the same), one whose user name is
  taken, and one whose password is a number.
\<close>

theorem signup_created_counterexample:
  "truthy (body_prop bob_signup ''username'') \<and> truthy (body_prop bob_signup ''email'')
   \<and> truthy (body_prop bob_signup ''password'')
   \<and> findOne demo_lib demo_world [alice] (body_prop bob_signup ''email'') = Inr None
   \<and> signupController demo_lib demo_env_no_secret demo_world [alice] bob_signup =
        ([alice, bob], json 500 False ''Server error during signup!'')
   \<and> truthy (body_prop taken_name_signup ''username'')
   \<and> truthy (body_prop taken_name_signup ''email'')
   \<and> truthy (body_prop taken_name_signup ''password'')
   \<and> findOne demo_lib demo_world [alice] (body_prop taken_name_signup ''email'') = Inr None
   \<and> signupController demo_lib demo_env demo_world [alice] taken_name_signup =
        ([alice], json 500 False ''Server error during signup!'')
   \<and> truthy (body_prop numeric_password_signup ''username'')
   \<and> truthy (body_prop numeric_password_signup ''email'')
   \<and> truthy (body_prop numeric_password_signup ''password'')
   \<and> findOne demo_lib demo_world [alice] (body_prop numeric_password_signup ''email'') = Inr None
   \<and> signupController demo_lib demo_env demo_world [alice] numeric_password_signup =
        ([alice], json 500 False ''Server error during signup!'')
   \<and> status (json 500 False ''Server error during signup!'') \<noteq> 201
   \<and> set_cookie (json 500 False ''Server error during signup!'') = None"
proof -
  have no_secret: "signup_try demo_lib demo_env_no_secret demo_world [alice] bob_signup =
      ([alice, bob], Inl JwtSecretNotDefined)"
    by (rule signup_try_no_secret [where h = "''$2a$10$abcdefghijklmnopqrstuv2retnuh''"])
      (simp_all add: bob_signup_props demo_find_bob demo_hash demo_save demo_env_no_secret_def
        env_truthy_def)
  have taken: "signup_try demo_lib demo_env demo_world [alice] taken_name_signup =
      ([alice], Inl (DuplicateKey ''username''))"
    by (rule signup_try_save_error [where h = "''$2a$10$abcdefghijklmnopqrstuvemasesnepo''"])
      (simp_all add: taken_name_signup_props demo_find_carol demo_hash_carol demo_save_carol)
  have number: "signup_try demo_lib demo_env demo_world [alice] numeric_password_signup =
      ([alice], Inl IllegalArguments)"
    by (rule signup_try_hash_error)
      (simp_all add: numeric_password_signup_props demo_find_dave demo_hash_number)
  show ?thesis
    by (simp add: signupController_thrown [OF no_secret] signupController_thrown [OF taken]
        signupController_thrown [OF number] bob_signup_props taken_name_signup_props
        numeric_password_signup_props demo_find_bob demo_find_carol demo_find_dave json_simps)
qed

text \<open>
  Claim C1, amended: for every registration request whose username, email and password are
  present, whose password is a string, whose email lookup finds no record, whose insert the
  store accepts and for which the signing secret is set, the flow stores exactly one new
  record, appended to the collection, whose password field is the digest that
  \<open>bcryptjs\<close> computes for the plaintext with cost 10: never the plaintext itself, and
  such that \<open>compareSync\<close> accepts the plaintext against it. The response has status
  201, carries the cookie with a token for the new record's id, and returns the record
  without its \<open>password\<close> property. The hasher is any \<open>bcryptjs\<close> with the contract of
  the spec.
\<close>

theorem signup_created:
  assumes present: "truthy (body_prop body ''username'')" "truthy (body_prop body ''email'')"
      "truthy (body_prop body ''password'')"
    and pw: "body_prop body ''password'' = JStr pw"
    and fresh: "findOne (use_bcryptjs B L) w db (body_prop body ''email'') = Inr None"
    and stored: "save (use_bcryptjs B L) w db
                   (new_User w (body_prop body ''username'') (body_prop body ''email'')
                      (JStr (bcrypt_hash (use_bcryptjs B L) pw 10 (salt w)))) = Inr (u, db')"
    and secret: "JWT_SECRET pe = Some secret" "secret \<noteq> []"
  shows "signupController (use_bcryptjs B L) pe w db body =
           (db @ [u],
            \<lparr>status = 201, success = True,
             message = ''User Created and Logged In Successfully'',
             user = Some (rest_without_password (doc u)),
             set_cookie = Some (access_cookie pe
               \<lparr>jwt_id = oid u, jwt_iat = now w div 1000,
                jwt_exp = now w div 1000 + 4 * 24 * 60 * 60, jwt_key = secret\<rparr>)\<rparr>)
         \<and> password u = bcrypt_hash (use_bcryptjs B L) pw 10 (salt w)
         \<and> password u \<noteq> pw
         \<and> compareSync (use_bcryptjs B L) (JStr pw) (password u) = Inr True
         \<and> map_of (rest_without_password (doc u)) ''password'' = None"
proof -
  from present(3) pw have nonempty: "pw \<noteq> []"
    by simp
  have hashed: "hashSync (use_bcryptjs B L) w (body_prop body ''password'') 10
      = Inr (bcrypt_hash (use_bcryptjs B L) pw 10 (salt w))"
    by (simp add: hashSync_def pw)
  from save_appends [OF stored]
  have db': "db' = db @ [u]"
    and digest: "password u = bcrypt_hash (use_bcryptjs B L) pw 10 (salt w)"
    by (simp_all add: new_User_def castString_def)
  have "signup_try (use_bcryptjs B L) pe w db body =
     (db', Inr \<lparr>status = 201, success = True,
                message = ''User Created and Logged In Successfully'',
                user = Some (rest_without_password (doc u)),
                set_cookie = Some (access_cookie pe
                  \<lparr>jwt_id = oid u, jwt_iat = now w div 1000,
                   jwt_exp = now w div 1000 + 345600, jwt_key = secret\<rparr>)\<rparr>)"
    by (rule signup_try_created [OF present fresh hashed stored secret])
  then have "signupController (use_bcryptjs B L) pe w db body =
           (db @ [u],
            \<lparr>status = 201, success = True,
             message = ''User Created and Logged In Successfully'',
             user = Some (rest_without_password (doc u)),
             set_cookie = Some (access_cookie pe
               \<lparr>jwt_id = oid u, jwt_iat = now w div 1000,
                jwt_exp = now w div 1000 + 4 * 24 * 60 * 60, jwt_key = secret\<rparr>)\<rparr>)"
    by (simp add: signupController_def db')
  moreover have "compareSync (use_bcryptjs B L) (JStr pw) (password u) = Inr True"
    using bcryptjs_contract(1) [OF nonempty] by (simp add: compareSync_def digest)
  moreover have "password u \<noteq> pw"
    using bcryptjs_contract(2) [OF nonempty] by (simp add: digest)
  ultimately show ?thesis
    using digest by (simp add: rest_has_no_password)
qed

text \<open>
  Claim C1 on an example: the registration of \<open>bob\<close> into a collection that holds
  \<open>alice\<close>.
\<close>

theorem signup_created_witness:
  "truthy (body_prop bob_signup ''username'') \<and> truthy (body_prop bob_signup ''email'')
   \<and> truthy (body_prop bob_signup ''password'')
   \<and> body_prop bob_signup ''password'' = JStr ''hunter2''
   \<and> findOne demo_lib demo_world [alice] (body_prop bob_signup ''email'') = Inr None
   \<and> JWT_SECRET demo_env = Some ''s3cret''
   \<and> signupController demo_lib demo_env demo_world [alice] bob_signup =
        ([alice, bob],
         \<lparr>status = 201, success = True,
          message = ''User Created and Logged In Successfully'',
          user = Some [(''username'', Str ''bob''), (''email'', Str ''bob@example.com''),
                       (''_id'', ObjectId 2), (''createdAt'', Date 1700000000123),
                       (''updatedAt'', Date 1700000000123), (''__v'', Num 0)],
          set_cookie = Some
            \<lparr>name = ''X_TTMS_access_token'',
             val = \<lparr>jwt_id = 2, jwt_iat = 1700000000, jwt_exp = 1700345600,
                    jwt_key = ''s3cret''\<rparr>,
             httpOnly = True, secure = True, sameSite = ''lax'', maxAge = 345600000\<rparr>\<rparr>)
   \<and> password bob = ''$2a$10$abcdefghijklmnopqrstuv2retnuh''
   \<and> password bob \<noteq> ''hunter2''
   \<and> compareSync demo_lib (JStr ''hunter2'') (password bob) = Inr True"
proof -
  have present: "truthy (body_prop bob_signup ''username'')"
      "truthy (body_prop bob_signup ''email'')" "truthy (body_prop bob_signup ''password'')"
    by (simp_all add: bob_signup_props)
  have pw: "body_prop bob_signup ''password'' = JStr ''hunter2''"
    by (simp add: bob_signup_props)
  have fresh: "findOne demo_lib demo_world [alice] (body_prop bob_signup ''email'') = Inr None"
    by (simp add: bob_signup_props demo_find_bob)
  have digest: "bcrypt_hash demo_lib ''hunter2'' 10 (salt demo_world)
      = ''$2a$10$abcdefghijklmnopqrstuv2retnuh''"
    by (simp add: demo_lib_def demo_world_def)
  have stored: "save demo_lib demo_world [alice]
      (new_User demo_world (body_prop bob_signup ''username'') (body_prop bob_signup ''email'')
         (JStr (bcrypt_hash demo_lib ''hunter2'' 10 (salt demo_world)))) = Inr (bob, [alice, bob])"
    by (simp add: bob_signup_props digest demo_save)
  have secret: "JWT_SECRET demo_env = Some ''s3cret''" "''s3cret'' \<noteq> []"
    by (simp_all add: demo_env_def)
  have doc_bob: "rest_without_password (doc bob) =
      [(''username'', Str ''bob''), (''email'', Str ''bob@example.com''),
       (''_id'', ObjectId 2), (''createdAt'', Date 1700000000123),
       (''updatedAt'', Date 1700000000123), (''__v'', Num 0)]"
    by (simp add: rest_without_password_doc bob_def)
  have cookie: "access_cookie demo_env
         \<lparr>jwt_id = oid bob, jwt_iat = now demo_world div 1000,
          jwt_exp = now demo_world div 1000 + 345600, jwt_key = ''s3cret''\<rparr> =
       \<lparr>name = ''X_TTMS_access_token'',
        val = \<lparr>jwt_id = 2, jwt_iat = 1700000000, jwt_exp = 1700345600, jwt_key = ''s3cret''\<rparr>,
        httpOnly = True, secure = True, sameSite = ''lax'', maxAge = 345600000\<rparr>"
    by (simp add: access_cookie_def demo_env_def demo_world_def bob_def)
  note main = signup_created [where B = demo_bcryptjs and L = demo_lib,
      unfolded use_demo_bcryptjs, OF present pw fresh stored secret]
  from main have response:
    "signupController demo_lib demo_env demo_world [alice] bob_signup =
        ([alice, bob],
         \<lparr>status = 201, success = True,
          message = ''User Created and Logged In Successfully'',
          user = Some [(''username'', Str ''bob''), (''email'', Str ''bob@example.com''),
                       (''_id'', ObjectId 2), (''createdAt'', Date 1700000000123),
                       (''updatedAt'', Date 1700000000123), (''__v'', Num 0)],
          set_cookie = Some
            \<lparr>name = ''X_TTMS_access_token'',
             val = \<lparr>jwt_id = 2, jwt_iat = 1700000000, jwt_exp = 1700345600,
                    jwt_key = ''s3cret''\<rparr>,
             httpOnly = True, secure = True, sameSite = ''lax'', maxAge = 345600000\<rparr>\<rparr>)"
    by (simp add: doc_bob cookie)
  from main have stored_digest: "password bob = ''$2a$10$abcdefghijklmnopqrstuv2retnuh''"
    by (simp add: digest)
  from main have not_plain: "password bob \<noteq> ''hunter2''"
    by blast
  from main have accepted: "compareSync demo_lib (JStr ''hunter2'') (password bob) = Inr True"
    by blast
  show ?thesis
    using present pw fresh secret(1) response stored_digest not_plain accepted
    by - (intro conjI; assumption)
qed

text \<open>
  Claim C2, as stated: every login whose fields are present, whose email matches a record
  and whose password verifies is answered with status 200 and a token. While
  \<open>JWT_SECRET\<close> is not set, the correct credentials of \<open>alice\<close> are answered with
  status 500 and no cookie.
\<close>

theorem login_ok_counterexample:
  "truthy (body_prop alice_login ''email'') \<and> truthy (body_prop alice_login ''password'')
   \<and> findOne demo_lib demo_world [alice] (body_prop alice_login ''email'') = Inr (Some alice)
   \<and> compareSync demo_lib (body_prop alice_login ''password'') (password alice) = Inr True
   \<and> loginController demo_lib demo_env_no_secret demo_world [alice] alice_login =
        ([alice], json 500 False ''Internal server error during login.'')
   \<and> status (json 500 False ''Internal server error during login.'') \<noteq> 200
   \<and> set_cookie (json 500 False ''Internal server error during login.'') = None"
proof -
  have "login_try demo_lib demo_env_no_secret demo_world [alice] alice_login =
      ([alice], Inl JwtSecretNotDefined)"
    by (rule login_try_no_secret [where u = alice])
      (simp_all add: alice_login_props demo_find_alice demo_compare_alice
        demo_env_no_secret_def env_truthy_def)
  then show ?thesis
    by (simp add: loginController_def alice_login_props demo_find_alice demo_compare_alice
        json_def)
qed

text \<open>
  Claim C2, amended: for every login request whose email and password are present, whose
  email lookup returns a record, whose password \<open>compareSync\<close> accepts against the
  record's digest, and for which the signing secret is set, the response has status 200,
  the cookie carries a token signed with the secret, whose \<open>id\<close> is the record's
  \<open>_id\<close> and which expires 4 days after it was issued, the returned user is the record
  without its \<open>password\<close> property, and the collection is as before.
\<close>

theorem login_ok:
  assumes present: "truthy (body_prop body ''email'')" "truthy (body_prop body ''password'')"
    and found: "findOne L w db (body_prop body ''email'') = Inr (Some u)"
    and verified: "compareSync L (body_prop body ''password'') (password u) = Inr True"
    and secret: "JWT_SECRET pe = Some secret" "secret \<noteq> []"
  shows "loginController L pe w db body =
           (db,
            \<lparr>status = 200, success = True, message = ''Login Success'',
             user = Some (rest_without_password (doc u)),
             set_cookie = Some (access_cookie pe
               \<lparr>jwt_id = oid u, jwt_iat = now w div 1000,
                jwt_exp = now w div 1000 + 4 * 24 * 60 * 60, jwt_key = secret\<rparr>)\<rparr>)
         \<and> u \<in> set db
         \<and> map_of (rest_without_password (doc u)) ''password'' = None"
  using login_try_ok [OF present found verified secret] findOne_in_collection [OF found]
  by (simp add: loginController_def rest_has_no_password)

text \<open>
  Claim C2 on an example: the login of \<open>alice\<close>.
\<close>

theorem login_ok_witness:
  "truthy (body_prop alice_login ''email'') \<and> truthy (body_prop alice_login ''password'')
   \<and> findOne demo_lib demo_world [alice] (body_prop alice_login ''email'') = Inr (Some alice)
   \<and> compareSync demo_lib (body_prop alice_login ''password'') (password alice) = Inr True
   \<and> JWT_SECRET demo_env = Some ''s3cret''
   \<and> loginController demo_lib demo_env demo_world [alice] alice_login =
        ([alice],
         \<lparr>status = 200, success = True, message = ''Login Success'',
          user = Some [(''username'', Str ''alice''), (''email'', Str ''alice@example.com''),
                       (''_id'', ObjectId 1), (''createdAt'', Date 1600000000000),
                       (''updatedAt'', Date 1600000000000), (''__v'', Num 0)],
          set_cookie = Some
            \<lparr>name = ''X_TTMS_access_token'',
             val = \<lparr>jwt_id = 1, jwt_iat = 1700000000, jwt_exp = 1700345600,
                    jwt_key = ''s3cret''\<rparr>,
             httpOnly = True, secure = True, sameSite = ''lax'', maxAge = 345600000\<rparr>\<rparr>)"
proof -
  have present: "truthy (body_prop alice_login ''email'')"
      "truthy (body_prop alice_login ''password'')"
    by (simp_all add: alice_login_props)
  have found: "findOne demo_lib demo_world [alice] (body_prop alice_login ''email'')
      = Inr (Some alice)"
    by (simp add: alice_login_props demo_find_alice)
  have verified: "compareSync demo_lib (body_prop alice_login ''password'') (password alice)
      = Inr True"
    by (simp add: alice_login_props demo_compare_alice)
  have secret: "JWT_SECRET demo_env = Some ''s3cret''" "''s3cret'' \<noteq> []"
    by (simp_all add: demo_env_def)
  have doc_alice: "rest_without_password (doc alice) =
      [(''username'', Str ''alice''), (''email'', Str ''alice@example.com''),
       (''_id'', ObjectId 1), (''createdAt'', Date 1600000000000),
       (''updatedAt'', Date 1600000000000), (''__v'', Num 0)]"
    by (simp add: rest_without_password_doc alice_def)
  have cookie: "access_cookie demo_env
         \<lparr>jwt_id = oid alice, jwt_iat = now demo_world div 1000,
          jwt_exp = now demo_world div 1000 + 345600, jwt_key = ''s3cret''\<rparr> =
       \<lparr>name = ''X_TTMS_access_token'',
        val = \<lparr>jwt_id = 1, jwt_iat = 1700000000, jwt_exp = 1700345600, jwt_key = ''s3cret''\<rparr>,
        httpOnly = True, secure = True, sameSite = ''lax'', maxAge = 345600000\<rparr>"
    by (simp add: access_cookie_def demo_env_def demo_world_def alice_def)
  from login_ok [OF present found verified secret] have response:
    "loginController demo_lib demo_env demo_world [alice] alice_login =
        ([alice],
         \<lparr>status = 200, success = True, message = ''Login Success'',
          user = Some [(''username'', Str ''alice''), (''email'', Str ''alice@example.com''),
                       (''_id'', ObjectId 1), (''createdAt'', Date 1600000000000),
                       (''updatedAt'', Date 1600000000000), (''__v'', Num 0)],
          set_cookie = Some
            \<lparr>name = ''X_TTMS_access_token'',
             val = \<lparr>jwt_id = 1, jwt_iat = 1700000000, jwt_exp = 1700345600,
                    jwt_key = ''s3cret''\<rparr>,
             httpOnly = True, secure = True, sameSite = ''lax'', maxAge = 345600000\<rparr>\<rparr>)"
    by (simp add: doc_alice cookie)
  show ?thesis
    using present found verified secret(1) response
    by - (intro conjI; assumption)
qed

section \<open>Refused requests\<close>

text \<open>
  Claim C3, as stated: every registration request in which username, email or password is
  absent is answered with status 400. A request whose body was not parsed has none of the
  three fields, and it is answered with status 500: \<open>req.body\<close> is \<open>undefined\<close>, the
  destructuring throws inside the \<open>try\<close> block, and the \<open>catch\<close> block answers.
\<close>

theorem signup_rejections_counterexample:
  "\<not> truthy (body_prop JUndefined ''username'') \<and> \<not> truthy (body_prop JUndefined ''email'')
   \<and> \<not> truthy (body_prop JUndefined ''password'')
   \<and> signupController demo_lib demo_env demo_world [alice] JUndefined =
        ([alice], json 500 False ''Server error during signup!'')
   \<and> status (json 500 False ''Server error during signup!'') \<noteq> 400"
  by (simp add: signupController_thrown [OF signup_try_unparsed] unparsed_props json_simps)

text \<open>
  Claim C3, amended: for every registration request whose body can be destructured
  (\<open>req.body\<close> is neither \<open>undefined\<close> nor \<open>null\<close>), if username, email or password
  is absent (falsy, as the code tests it) the response has status 400, whatever the
  collection holds, since the fields are checked before the lookup. Otherwise, if the lookup
  by email returns a record, the response has status 409. In both cases the collection is
  as before, so no record is stored and none is changed, and no cookie is set.
\<close>

theorem signup_rejections:
  "(\<not> nullish body
      \<and> (\<not> truthy (body_prop body ''username'') \<or> \<not> truthy (body_prop body ''email'')
         \<or> \<not> truthy (body_prop body ''password'')) \<longrightarrow>
      status (snd (signupController L pe w db body)) = 400
      \<and> fst (signupController L pe w db body) = db
      \<and> set_cookie (snd (signupController L pe w db body)) = None)
   \<and> (truthy (body_prop body ''username'') \<and> truthy (body_prop body ''email'')
      \<and> truthy (body_prop body ''password'')
      \<and> findOne L w db (body_prop body ''email'') = Inr (Some u) \<longrightarrow>
      status (snd (signupController L pe w db body)) = 409
      \<and> fst (signupController L pe w db body) = db
      \<and> set_cookie (snd (signupController L pe w db body)) = None)"
proof (intro conjI impI)
  assume missing: "\<not> nullish body
      \<and> (\<not> truthy (body_prop body ''username'') \<or> \<not> truthy (body_prop body ''email'')
         \<or> \<not> truthy (body_prop body ''password''))"
  then have "signup_try L pe w db body =
      (db, Inr (json 400 False ''Username, email, and password are required!''))"
    by (intro signup_try_missing) simp_all
  then have r: "signupController L pe w db body =
      (db, json 400 False ''Username, email, and password are required!'')"
    by (rule signupController_sent)
  show "status (snd (signupController L pe w db body)) = 400"
    and "fst (signupController L pe w db body) = db"
    and "set_cookie (snd (signupController L pe w db body)) = None"
    by (simp_all add: r json_simps)
next
  assume dup: "truthy (body_prop body ''username'') \<and> truthy (body_prop body ''email'')
      \<and> truthy (body_prop body ''password'')
      \<and> findOne L w db (body_prop body ''email'') = Inr (Some u)"
  then have "signup_try L pe w db body =
      (db, Inr (json 409 False ''User already exists, please login''))"
    by (intro signup_try_exists) simp_all
  then have r: "signupController L pe w db body =
      (db, json 409 False ''User already exists, please login'')"
    by (rule signupController_sent)
  show "status (snd (signupController L pe w db body)) = 409"
    and "fst (signupController L pe w db body) = db"
    and "set_cookie (snd (signupController L pe w db body)) = None"
    by (simp_all add: r json_simps)
qed

text \<open>
  Claim C3, amended, on examples: a registration without password under the email of
  \<open>alice\<close> is answered with 400, not 409; a complete one under her email with 409.
\<close>

theorem signup_rejections_witness:
  "\<not> nullish no_password_signup
   \<and> \<not> truthy (body_prop no_password_signup ''password'')
   \<and> findOne demo_lib demo_world [alice] (body_prop no_password_signup ''email'')
       = Inr (Some alice)
   \<and> status (snd (signupController demo_lib demo_env demo_world [alice] no_password_signup)) = 400
   \<and> fst (signupController demo_lib demo_env demo_world [alice] no_password_signup) = [alice]
   \<and> set_cookie (snd (signupController demo_lib demo_env demo_world [alice] no_password_signup))
       = None
   \<and> truthy (body_prop alice_again_signup ''username'')
   \<and> truthy (body_prop alice_again_signup ''email'')
   \<and> truthy (body_prop alice_again_signup ''password'')
   \<and> findOne demo_lib demo_world [alice] (body_prop alice_again_signup ''email'')
       = Inr (Some alice)
   \<and> status (snd (signupController demo_lib demo_env demo_world [alice] alice_again_signup)) = 409
   \<and> fst (signupController demo_lib demo_env demo_world [alice] alice_again_signup) = [alice]
   \<and> set_cookie (snd (signupController demo_lib demo_env demo_world [alice] alice_again_signup))
       = None"
proof -
  have parsed: "\<not> nullish no_password_signup"
    by (rule demo_examples_parsed)
  have missing: "\<not> truthy (body_prop no_password_signup ''password'')"
    by (simp add: no_password_signup_props)
  have found1: "findOne demo_lib demo_world [alice] (body_prop no_password_signup ''email'')
       = Inr (Some alice)"
    by (simp add: no_password_signup_props demo_find_alice)
  have present: "truthy (body_prop alice_again_signup ''username'')"
    "truthy (body_prop alice_again_signup ''email'')"
    "truthy (body_prop alice_again_signup ''password'')"
    by (simp_all add: alice_again_signup_props)
  have found2: "findOne demo_lib demo_world [alice] (body_prop alice_again_signup ''email'')
       = Inr (Some alice)"
    by (simp add: alice_again_signup_props demo_find_alice)
  from signup_rejections [where body = no_password_signup and L = demo_lib and pe = demo_env
      and w = demo_world and db = "[alice]"]
    parsed missing
  have a: "status (snd (signupController demo_lib demo_env demo_world [alice] no_password_signup)) = 400
   \<and> fst (signupController demo_lib demo_env demo_world [alice] no_password_signup) = [alice]
   \<and> set_cookie (snd (signupController demo_lib demo_env demo_world [alice] no_password_signup))
       = None"
    by blast
  from signup_rejections [where body = alice_again_signup and L = demo_lib and pe = demo_env
      and w = demo_world and db = "[alice]" and u = alice]
    present found2
  have b: "status (snd (signupController demo_lib demo_env demo_world [alice] alice_again_signup)) = 409
   \<and> fst (signupController demo_lib demo_env demo_world [alice] alice_again_signup) = [alice]
   \<and> set_cookie (snd (signupController demo_lib demo_env demo_world [alice] alice_again_signup))
       = None"
    by blast
  show ?thesis
    using parsed missing found1 a present found2 b by blast
qed

text \<open>
  Claim C4, as stated: every failing login is answered with 400 when a field is absent,
  else with 404 when no record matches the email, else with 401 when the password does not
  verify. Three requests are answered with status 500 instead: one whose body was not
  parsed, so that both fields are absent; one whose email is an object, which matches no
  record and which the lookup cannot cast; and one under the email of \<open>alice\<close> whose
  password is a number, which \<open>compareSync\<close> refuses to compare.
\<close>

theorem login_rejections_counterexample:
  "\<not> truthy (body_prop JUndefined ''email'') \<and> \<not> truthy (body_prop JUndefined ''password'')
   \<and> loginController demo_lib demo_env demo_world [alice] JUndefined =
        ([alice], json 500 False ''Internal server error during login.'')
   \<and> truthy (body_prop object_email_login ''email'')
   \<and> truthy (body_prop object_email_login ''password'')
   \<and> findOne demo_lib demo_world [alice] (body_prop object_email_login ''email'')
        = Inl (CastError ''email'')
   \<and> loginController demo_lib demo_env demo_world [alice] object_email_login =
        ([alice], json 500 False ''Internal server error during login.'')
   \<and> truthy (body_prop numeric_password_login ''email'')
   \<and> truthy (body_prop numeric_password_login ''password'')
   \<and> findOne demo_lib demo_world [alice] (body_prop numeric_password_login ''email'')
        = Inr (Some alice)
   \<and> compareSync demo_lib (body_prop numeric_password_login ''password'') (password alice)
        = Inl IllegalArguments
   \<and> loginController demo_lib demo_env demo_world [alice] numeric_password_login =
        ([alice], json 500 False ''Internal server error during login.'')
   \<and> status (json 500 False ''Internal server error during login.'') = 500"
proof -
  have unparsed: "login_try demo_lib demo_env demo_world [alice] JUndefined =
      ([alice], Inl TypeError)"
    by (rule login_try_unparsed) (rule unparsed_props)
  have uncastable: "login_try demo_lib demo_env demo_world [alice] object_email_login =
      ([alice], Inl (CastError ''email''))"
    by (rule login_try_find_error) (simp_all add: rejected_login_props demo_find_object)
  have number: "login_try demo_lib demo_env demo_world [alice] numeric_password_login =
      ([alice], Inl IllegalArguments)"
    by (rule login_try_compare_error [where u = alice])
      (simp_all add: rejected_login_props demo_find_alice demo_compare_number)
  show ?thesis
    by (simp add: loginController_thrown [OF unparsed] loginController_thrown [OF uncastable]
        loginController_thrown [OF number] unparsed_props rejected_login_props
        demo_find_object demo_find_alice demo_compare_number json_simps)
qed

text \<open>
  Claim C4, amended: for every login request, in this order: if the body can be
  destructured and email or password is absent, the response has status 400; otherwise, if
  the lookup by email succeeds and returns no record, status 404; otherwise, if the
  password is a string that \<open>bcryptjs\<close> does not accept against the record's digest,
  status 401. None of these responses sets a cookie, so no token is issued.
\<close>

theorem login_rejections:
  "(\<not> nullish body
      \<and> (\<not> truthy (body_prop body ''email'') \<or> \<not> truthy (body_prop body ''password'')) \<longrightarrow>
      status (snd (loginController L pe w db body)) = 400
      \<and> set_cookie (snd (loginController L pe w db body)) = None)
   \<and> (truthy (body_prop body ''email'') \<and> truthy (body_prop body ''password'')
      \<and> findOne L w db (body_prop body ''email'') = Inr None \<longrightarrow>
      status (snd (loginController L pe w db body)) = 404
      \<and> set_cookie (snd (loginController L pe w db body)) = None)
   \<and> (truthy (body_prop body ''email'') \<and> truthy (body_prop body ''password'')
      \<and> findOne L w db (body_prop body ''email'') = Inr (Some u)
      \<and> body_prop body ''password'' = JStr p
      \<and> \<not> bcrypt_compare L p (password u) \<longrightarrow>
      status (snd (loginController L pe w db body)) = 401
      \<and> set_cookie (snd (loginController L pe w db body)) = None)"
proof (intro conjI impI)
  assume missing: "\<not> nullish body
      \<and> (\<not> truthy (body_prop body ''email'') \<or> \<not> truthy (body_prop body ''password''))"
  then have "login_try L pe w db body =
      (db, Inr (json 400 False ''Email and password are required!''))"
    by (intro login_try_missing) simp_all
  then have r: "loginController L pe w db body =
      (db, json 400 False ''Email and password are required!'')"
    by (rule loginController_sent)
  show "status (snd (loginController L pe w db body)) = 400"
    and "set_cookie (snd (loginController L pe w db body)) = None"
    by (simp_all add: r json_simps)
next
  assume unknown: "truthy (body_prop body ''email'') \<and> truthy (body_prop body ''password'')
      \<and> findOne L w db (body_prop body ''email'') = Inr None"
  then have "login_try L pe w db body = (db, Inr (json 404 False ''User not found!''))"
    by (intro login_try_not_found) simp_all
  then have r: "loginController L pe w db body = (db, json 404 False ''User not found!'')"
    by (rule loginController_sent)
  show "status (snd (loginController L pe w db body)) = 404"
    and "set_cookie (snd (loginController L pe w db body)) = None"
    by (simp_all add: r json_simps)
next
  assume wrong: "truthy (body_prop body ''email'') \<and> truthy (body_prop body ''password'')
      \<and> findOne L w db (body_prop body ''email'') = Inr (Some u)
      \<and> body_prop body ''password'' = JStr p
      \<and> \<not> bcrypt_compare L p (password u)"
  then have present: "truthy (body_prop body ''email'')" "truthy (body_prop body ''password'')"
    and found: "findOne L w db (body_prop body ''email'') = Inr (Some u)"
    by blast+
  from wrong have rejected:
    "compareSync L (body_prop body ''password'') (password u) = Inr False"
    by (simp add: compareSync_def)
  have "login_try L pe w db body = (db, Inr (json 401 False ''Invalid credentials''))"
    by (rule login_try_invalid [OF present found rejected])
  then have r: "loginController L pe w db body = (db, json 401 False ''Invalid credentials'')"
    by (rule loginController_sent)
  show "status (snd (loginController L pe w db body)) = 401"
    and "set_cookie (snd (loginController L pe w db body)) = None"
    by (simp_all add: r json_simps)
qed

text \<open>
  Claim C4, amended, on examples: a login without password, one under an unknown email
  and one with a wrong password.
\<close>

theorem login_rejections_witness:
  "\<not> nullish no_password_login
   \<and> \<not> truthy (body_prop no_password_login ''password'')
   \<and> status (snd (loginController demo_lib demo_env demo_world [alice] no_password_login)) = 400
   \<and> set_cookie (snd (loginController demo_lib demo_env demo_world [alice] no_password_login))
       = None
   \<and> truthy (body_prop stranger_login ''email'') \<and> truthy (body_prop stranger_login ''password'')
   \<and> findOne demo_lib demo_world [alice] (body_prop stranger_login ''email'') = Inr None
   \<and> status (snd (loginController demo_lib demo_env demo_world [alice] stranger_login)) = 404
   \<and> set_cookie (snd (loginController demo_lib demo_env demo_world [alice] stranger_login))
       = None
   \<and> truthy (body_prop wrong_password_login ''email'')
   \<and> truthy (body_prop wrong_password_login ''password'')
   \<and> findOne demo_lib demo_world [alice] (body_prop wrong_password_login ''email'')
       = Inr (Some alice)
   \<and> body_prop wrong_password_login ''password'' = JStr ''wonderlan''
   \<and> \<not> bcrypt_compare demo_lib ''wonderlan'' (password alice)
   \<and> status (snd (loginController demo_lib demo_env demo_world [alice] wrong_password_login)) = 401
   \<and> set_cookie (snd (loginController demo_lib demo_env demo_world [alice] wrong_password_login))
       = None"
proof -
  have parsed: "\<not> nullish no_password_login"
    by (rule demo_examples_parsed)
  have missing: "\<not> truthy (body_prop no_password_login ''password'')"
    by (simp add: login_examples_props)
  have stranger: "truthy (body_prop stranger_login ''email'')"
    "truthy (body_prop stranger_login ''password'')"
    "findOne demo_lib demo_world [alice] (body_prop stranger_login ''email'') = Inr None"
    by (simp_all add: login_examples_props demo_find_mallory)
  have wrong: "truthy (body_prop wrong_password_login ''email'')"
    "truthy (body_prop wrong_password_login ''password'')"
    "findOne demo_lib demo_world [alice] (body_prop wrong_password_login ''email'')
       = Inr (Some alice)"
    "body_prop wrong_password_login ''password'' = JStr ''wonderlan''"
    by (simp_all add: login_examples_props demo_find_alice)
  have rejected: "\<not> bcrypt_compare demo_lib ''wonderlan'' (password alice)"
    by (simp add: demo_bcrypt_compare alice_def)
  from login_rejections [where body = no_password_login and L = demo_lib and pe = demo_env
      and w = demo_world and db = "[alice]"]
    parsed missing
  have a: "status (snd (loginController demo_lib demo_env demo_world [alice] no_password_login)) = 400
   \<and> set_cookie (snd (loginController demo_lib demo_env demo_world [alice] no_password_login))
       = None"
    by blast
  from login_rejections [where body = stranger_login and L = demo_lib and pe = demo_env
      and w = demo_world and db = "[alice]"]
    stranger
  have b: "status (snd (loginController demo_lib demo_env demo_world [alice] stranger_login)) = 404
   \<and> set_cookie (snd (loginController demo_lib demo_env demo_world [alice] stranger_login))
       = None"
    by blast
  from login_rejections [where body = wrong_password_login and L = demo_lib and pe = demo_env
      and w = demo_world and db = "[alice]" and u = alice and p = "''wonderlan''"]
    wrong rejected
  have c: "status (snd (loginController demo_lib demo_env demo_world [alice] wrong_password_login)) = 401
   \<and> set_cookie (snd (loginController demo_lib demo_env demo_world [alice] wrong_password_login))
       = None"
    by blast
  show ?thesis
    using parsed missing stranger wrong rejected a b c by blast
qed

section \<open>Failing dependencies\<close>

text \<open>
  Claim C5: a registration request with all fields present on which the lookup, the hasher
  or the insert throws is answered with status 500 and no cookie, the collection being as
  before; and when the record has been stored and the signing secret is not set, the
  answer is status 500 as well and the new record stays in the collection.
\<close>

theorem signup_dependency_failure:
  assumes present: "truthy (body_prop body ''username'')" "truthy (body_prop body ''email'')"
      "truthy (body_prop body ''password'')"
  shows
    "(findOne L w db (body_prop body ''email'') = Inl e \<longrightarrow>
        signupController L pe w db body = (db, json 500 False ''Server error during signup!''))
     \<and> (findOne L w db (body_prop body ''email'') = Inr None
        \<and> hashSync L w (body_prop body ''password'') 10 = Inl e \<longrightarrow>
        signupController L pe w db body = (db, json 500 False ''Server error during signup!''))
     \<and> (findOne L w db (body_prop body ''email'') = Inr None
        \<and> hashSync L w (body_prop body ''password'') 10 = Inr h
        \<and> save L w db (new_User w (body_prop body ''username'') (body_prop body ''email'')
             (JStr h)) = Inl e \<longrightarrow>
        signupController L pe w db body = (db, json 500 False ''Server error during signup!''))
     \<and> (findOne L w db (body_prop body ''email'') = Inr None
        \<and> hashSync L w (body_prop body ''password'') 10 = Inr h
        \<and> save L w db (new_User w (body_prop body ''username'') (body_prop body ''email'')
             (JStr h)) = Inr (u, db')
        \<and> \<not> env_truthy (JWT_SECRET pe) \<longrightarrow>
        signupController L pe w db body =
          (db @ [u], json 500 False ''Server error during signup!''))
     \<and> status (json 500 False ''Server error during signup!'') = 500
     \<and> set_cookie (json 500 False ''Server error during signup!'') = None"
proof (intro conjI impI)
  assume "findOne L w db (body_prop body ''email'') = Inl e"
  then show "signupController L pe w db body =
      (db, json 500 False ''Server error during signup!'')"
    by (intro signupController_thrown signup_try_find_error present)
next
  assume "findOne L w db (body_prop body ''email'') = Inr None
        \<and> hashSync L w (body_prop body ''password'') 10 = Inl e"
  then show "signupController L pe w db body =
      (db, json 500 False ''Server error during signup!'')"
    by (intro signupController_thrown signup_try_hash_error present) simp_all
next
  assume "findOne L w db (body_prop body ''email'') = Inr None
        \<and> hashSync L w (body_prop body ''password'') 10 = Inr h
        \<and> save L w db (new_User w (body_prop body ''username'') (body_prop body ''email'')
             (JStr h)) = Inl e"
  then show "signupController L pe w db body =
      (db, json 500 False ''Server error during signup!'')"
    by (intro signupController_thrown signup_try_save_error [where h = h] present) simp_all
next
  assume a: "findOne L w db (body_prop body ''email'') = Inr None
        \<and> hashSync L w (body_prop body ''password'') 10 = Inr h
        \<and> save L w db (new_User w (body_prop body ''username'') (body_prop body ''email'')
             (JStr h)) = Inr (u, db')
        \<and> \<not> env_truthy (JWT_SECRET pe)"
  then have "save L w db (new_User w (body_prop body ''username'') (body_prop body ''email'')
             (JStr h)) = Inr (u, db')"
    by simp
  then have "db' = db @ [u]"
    by (rule save_appends_one)
  moreover from a have "signup_try L pe w db body = (db', Inl JwtSecretNotDefined)"
    by (intro signup_try_no_secret [where h = h and u = u] present) simp_all
  ultimately show "signupController L pe w db body =
      (db @ [u], json 500 False ''Server error during signup!'')"
    by (simp add: signupController_thrown)
qed (simp_all add: json_simps)

text \<open>
  Claim C5 on examples: the database unreachable, a number as password, a taken user
  name, and no signing secret. Only the last leaves the record of \<open>bob\<close> behind.
\<close>

theorem signup_dependency_failure_witness:
  "truthy (body_prop bob_signup ''username'') \<and> truthy (body_prop bob_signup ''email'')
   \<and> truthy (body_prop bob_signup ''password'')
   \<and> findOne demo_lib offline_world [alice] (body_prop bob_signup ''email'')
        = Inl MongoNetworkError
   \<and> signupController demo_lib demo_env offline_world [alice] bob_signup =
        ([alice], json 500 False ''Server error during signup!'')
   \<and> truthy (body_prop numeric_password_signup ''username'')
   \<and> truthy (body_prop numeric_password_signup ''email'')
   \<and> truthy (body_prop numeric_password_signup ''password'')
   \<and> findOne demo_lib demo_world [alice] (body_prop numeric_password_signup ''email'') = Inr None
   \<and> hashSync demo_lib demo_world (body_prop numeric_password_signup ''password'') 10
        = Inl IllegalArguments
   \<and> signupController demo_lib demo_env demo_world [alice] numeric_password_signup =
        ([alice], json 500 False ''Server error during signup!'')
   \<and> truthy (body_prop taken_name_signup ''username'')
   \<and> truthy (body_prop taken_name_signup ''email'')
   \<and> truthy (body_prop taken_name_signup ''password'')
   \<and> findOne demo_lib demo_world [alice] (body_prop taken_name_signup ''email'') = Inr None
   \<and> hashSync demo_lib demo_world (body_prop taken_name_signup ''password'') 10
        = Inr ''$2a$10$abcdefghijklmnopqrstuvemasesnepo''
   \<and> save demo_lib demo_world [alice]
        (new_User demo_world (body_prop taken_name_signup ''username'')
           (body_prop taken_name_signup ''email'')
           (JStr ''$2a$10$abcdefghijklmnopqrstuvemasesnepo'')) = Inl (DuplicateKey ''username'')
   \<and> signupController demo_lib demo_env demo_world [alice] taken_name_signup =
        ([alice], json 500 False ''Server error during signup!'')
   \<and> findOne demo_lib demo_world [alice] (body_prop bob_signup ''email'') = Inr None
   \<and> hashSync demo_lib demo_world (body_prop bob_signup ''password'') 10
        = Inr ''$2a$10$abcdefghijklmnopqrstuv2retnuh''
   \<and> save demo_lib demo_world [alice]
        (new_User demo_world (body_prop bob_signup ''username'') (body_prop bob_signup ''email'')
           (JStr ''$2a$10$abcdefghijklmnopqrstuv2retnuh'')) = Inr (bob, [alice, bob])
   \<and> \<not> env_truthy (JWT_SECRET demo_env_no_secret)
   \<and> signupController demo_lib demo_env_no_secret demo_world [alice] bob_signup =
        ([alice] @ [bob], json 500 False ''Server error during signup!'')"
proof -
  have bob_present: "truthy (body_prop bob_signup ''username'')"
    "truthy (body_prop bob_signup ''email'')" "truthy (body_prop bob_signup ''password'')"
    by (simp_all add: bob_signup_props)
  have dave_present: "truthy (body_prop numeric_password_signup ''username'')"
    "truthy (body_prop numeric_password_signup ''email'')"
    "truthy (body_prop numeric_password_signup ''password'')"
    by (simp_all add: numeric_password_signup_props)
  have carol_present: "truthy (body_prop taken_name_signup ''username'')"
    "truthy (body_prop taken_name_signup ''email'')"
    "truthy (body_prop taken_name_signup ''password'')"
    by (simp_all add: taken_name_signup_props)
  have offline: "findOne demo_lib offline_world [alice] (body_prop bob_signup ''email'')
        = Inl MongoNetworkError"
    by (rule offline_find)
  have dave: "findOne demo_lib demo_world [alice] (body_prop numeric_password_signup ''email'')
        = Inr None"
    "hashSync demo_lib demo_world (body_prop numeric_password_signup ''password'') 10
        = Inl IllegalArguments"
    by (simp_all add: numeric_password_signup_props demo_find_dave demo_hash_number)
  have carol: "findOne demo_lib demo_world [alice] (body_prop taken_name_signup ''email'')
        = Inr None"
    "hashSync demo_lib demo_world (body_prop taken_name_signup ''password'') 10
        = Inr ''$2a$10$abcdefghijklmnopqrstuvemasesnepo''"
    "save demo_lib demo_world [alice]
        (new_User demo_world (body_prop taken_name_signup ''username'')
           (body_prop taken_name_signup ''email'')
           (JStr ''$2a$10$abcdefghijklmnopqrstuvemasesnepo'')) = Inl (DuplicateKey ''username'')"
    by (simp_all add: taken_name_signup_props demo_find_carol demo_hash_carol demo_save_carol)
  have bob: "findOne demo_lib demo_world [alice] (body_prop bob_signup ''email'') = Inr None"
    "hashSync demo_lib demo_world (body_prop bob_signup ''password'') 10
        = Inr ''$2a$10$abcdefghijklmnopqrstuv2retnuh''"
    "save demo_lib demo_world [alice]
        (new_User demo_world (body_prop bob_signup ''username'') (body_prop bob_signup ''email'')
           (JStr ''$2a$10$abcdefghijklmnopqrstuv2retnuh'')) = Inr (bob, [alice, bob])"
    "\<not> env_truthy (JWT_SECRET demo_env_no_secret)"
    by (simp_all add: bob_signup_props demo_find_bob demo_hash demo_save
        demo_env_no_secret_def env_truthy_def)
  from signup_dependency_failure [OF bob_present, where L = demo_lib and w = offline_world
      and db = "[alice]" and pe = demo_env and e = MongoNetworkError] offline
  have a: "signupController demo_lib demo_env offline_world [alice] bob_signup =
        ([alice], json 500 False ''Server error during signup!'')"
    by blast
  from signup_dependency_failure [OF dave_present, where L = demo_lib and w = demo_world
      and db = "[alice]" and pe = demo_env and e = IllegalArguments] dave
  have b: "signupController demo_lib demo_env demo_world [alice] numeric_password_signup =
        ([alice], json 500 False ''Server error during signup!'')"
    by blast
  from signup_dependency_failure [OF carol_present, where L = demo_lib and w = demo_world
      and db = "[alice]" and pe = demo_env and e = "DuplicateKey ''username''"
      and h = "''$2a$10$abcdefghijklmnopqrstuvemasesnepo''"] carol
  have c: "signupController demo_lib demo_env demo_world [alice] taken_name_signup =
        ([alice], json 500 False ''Server error during signup!'')"
    by blast
  from signup_dependency_failure [OF bob_present, where L = demo_lib and w = demo_world
      and db = "[alice]" and pe = demo_env_no_secret
      and h = "''$2a$10$abcdefghijklmnopqrstuv2retnuh''" and u = bob and db' = "[alice, bob]"] bob
  have d: "signupController demo_lib demo_env_no_secret demo_world [alice] bob_signup =
        ([alice] @ [bob], json 500 False ''Server error during signup!'')"
    by blast
  show ?thesis
    using bob_present dave_present carol_present offline dave carol bob a b c d
    by - (intro conjI; assumption)
qed

text \<open>
  Claim C6, as stated: without the signing secret the process exits at startup. It does
  not: with \<open>MONGO_URI\<close> set and \<open>JWT_SECRET\<close> missing, the database connected and
  the port free, the server is serving, and the missing secret shows only when a
  registration throws after storing its record.
\<close>

theorem startup_counterexample:
  "\<not> env_truthy (JWT_SECRET demo_env_no_secret)
   \<and> startup demo_env_no_secret True Listening = Serving
   \<and> signup_try demo_lib demo_env_no_secret demo_world [alice] bob_signup =
        ([alice, bob], Inl JwtSecretNotDefined)"
proof -
  have "signup_try demo_lib demo_env_no_secret demo_world [alice] bob_signup =
      ([alice, bob], Inl JwtSecretNotDefined)"
    by (rule signup_try_no_secret [where h = "''$2a$10$abcdefghijklmnopqrstuv2retnuh''" and u = bob])
      (simp_all add: bob_signup_props demo_find_bob demo_hash demo_save demo_env_no_secret_def
        env_truthy_def)
  then show ?thesis
    by (simp add: startup_def connectDB_def startServer_def demo_env_no_secret_def env_truthy_def)
qed

text \<open>
  Claim C6, amended: if the database connection string is absent, the process exits at
  startup with code 1. The signing secret is not read at startup, which ends the same
  whatever its value; its absence is first detected during request handling, where a
  registration that has stored its record and a login that has verified the password throw
  and are answered with status 500.
\<close>

theorem startup_checks_mongo_uri_only:
  "(\<not> env_truthy (MONGO_URI pe) \<longrightarrow> startup pe connect_ok r = Exited 1)
   \<and> startup (pe\<lparr>JWT_SECRET := s\<rparr>) connect_ok r = startup pe connect_ok r
   \<and> (\<not> env_truthy (JWT_SECRET pe)
      \<and> truthy (body_prop body ''username'') \<and> truthy (body_prop body ''email'')
      \<and> truthy (body_prop body ''password'')
      \<and> findOne L w db (body_prop body ''email'') = Inr None
      \<and> hashSync L w (body_prop body ''password'') 10 = Inr h
      \<and> save L w db (new_User w (body_prop body ''username'') (body_prop body ''email'')
           (JStr h)) = Inr (u, db') \<longrightarrow>
      signup_try L pe w db body = (db', Inl JwtSecretNotDefined)
      \<and> status (snd (signupController L pe w db body)) = 500)
   \<and> (\<not> env_truthy (JWT_SECRET pe)
      \<and> truthy (body_prop body ''email'') \<and> truthy (body_prop body ''password'')
      \<and> findOne L w db (body_prop body ''email'') = Inr (Some v)
      \<and> compareSync L (body_prop body ''password'') (password v) = Inr True \<longrightarrow>
      login_try L pe w db body = (db, Inl JwtSecretNotDefined)
      \<and> status (snd (loginController L pe w db body)) = 500)"
proof (intro conjI impI)
  assume "\<not> env_truthy (MONGO_URI pe)"
  then show "startup pe connect_ok r = Exited 1"
    by (simp add: startup_def connectDB_def)
next
  show "startup (pe\<lparr>JWT_SECRET := s\<rparr>) connect_ok r = startup pe connect_ok r"
    by (simp add: startup_def connectDB_def)
next
  assume a: "\<not> env_truthy (JWT_SECRET pe)
      \<and> truthy (body_prop body ''username'') \<and> truthy (body_prop body ''email'')
      \<and> truthy (body_prop body ''password'')
      \<and> findOne L w db (body_prop body ''email'') = Inr None
      \<and> hashSync L w (body_prop body ''password'') 10 = Inr h
      \<and> save L w db (new_User w (body_prop body ''username'') (body_prop body ''email'')
           (JStr h)) = Inr (u, db')"
  then show t: "signup_try L pe w db body = (db', Inl JwtSecretNotDefined)"
    by (intro signup_try_no_secret [where h = h and u = u]) simp_all
  show "status (snd (signupController L pe w db body)) = 500"
    by (simp add: signupController_thrown [OF t] json_simps)
next
  assume a: "\<not> env_truthy (JWT_SECRET pe)
      \<and> truthy (body_prop body ''email'') \<and> truthy (body_prop body ''password'')
      \<and> findOne L w db (body_prop body ''email'') = Inr (Some v)
      \<and> compareSync L (body_prop body ''password'') (password v) = Inr True"
  then show t: "login_try L pe w db body = (db, Inl JwtSecretNotDefined)"
    by (intro login_try_no_secret [where u = v]) simp_all
  show "status (snd (loginController L pe w db body)) = 500"
    by (simp add: loginController_thrown [OF t] json_simps)
qed

text \<open>
  Claim C6 on examples: an environment without \<open>MONGO_URI\<close>, and one without
  \<open>JWT_SECRET\<close>.
\<close>

theorem startup_checks_mongo_uri_only_witness:
  "\<not> env_truthy (MONGO_URI demo_env_no_uri)
   \<and> startup demo_env_no_uri True Listening = Exited 1
   \<and> startup (demo_env\<lparr>JWT_SECRET := None\<rparr>) True Listening = startup demo_env True Listening
   \<and> startup demo_env True Listening = Serving
   \<and> \<not> env_truthy (JWT_SECRET demo_env_no_secret)
   \<and> truthy (body_prop bob_signup ''username'') \<and> truthy (body_prop bob_signup ''email'')
   \<and> truthy (body_prop bob_signup ''password'')
   \<and> findOne demo_lib demo_world [alice] (body_prop bob_signup ''email'') = Inr None
   \<and> hashSync demo_lib demo_world (body_prop bob_signup ''password'') 10
        = Inr ''$2a$10$abcdefghijklmnopqrstuv2retnuh''
   \<and> save demo_lib demo_world [alice]
        (new_User demo_world (body_prop bob_signup ''username'') (body_prop bob_signup ''email'')
           (JStr ''$2a$10$abcdefghijklmnopqrstuv2retnuh'')) = Inr (bob, [alice, bob])
   \<and> signup_try demo_lib demo_env_no_secret demo_world [alice] bob_signup
        = ([alice, bob], Inl JwtSecretNotDefined)
   \<and> status (snd (signupController demo_lib demo_env_no_secret demo_world [alice] bob_signup))
        = 500
   \<and> truthy (body_prop alice_login ''email'') \<and> truthy (body_prop alice_login ''password'')
   \<and> findOne demo_lib demo_world [alice] (body_prop alice_login ''email'') = Inr (Some alice)
   \<and> compareSync demo_lib (body_prop alice_login ''password'') (password alice) = Inr True
   \<and> login_try demo_lib demo_env_no_secret demo_world [alice] alice_login
        = ([alice], Inl JwtSecretNotDefined)
   \<and> status (snd (loginController demo_lib demo_env_no_secret demo_world [alice] alice_login))
        = 500"
proof -
  have no_uri: "\<not> env_truthy (MONGO_URI demo_env_no_uri)"
    by (simp add: demo_env_no_uri_def env_truthy_def)
  have no_secret: "\<not> env_truthy (JWT_SECRET demo_env_no_secret)"
    by (simp add: demo_env_no_secret_def env_truthy_def)
  have serving: "startup demo_env True Listening = Serving"
    by (simp add: startup_def connectDB_def startServer_def demo_env_def env_truthy_def)
  have bob: "truthy (body_prop bob_signup ''username'')"
    "truthy (body_prop bob_signup ''email'')" "truthy (body_prop bob_signup ''password'')"
    "findOne demo_lib demo_world [alice] (body_prop bob_signup ''email'') = Inr None"
    "hashSync demo_lib demo_world (body_prop bob_signup ''password'') 10
        = Inr ''$2a$10$abcdefghijklmnopqrstuv2retnuh''"
    "save demo_lib demo_world [alice]
        (new_User demo_world (body_prop bob_signup ''username'') (body_prop bob_signup ''email'')
           (JStr ''$2a$10$abcdefghijklmnopqrstuv2retnuh'')) = Inr (bob, [alice, bob])"
    by (simp_all add: bob_signup_props demo_find_bob demo_hash demo_save)
  have alice: "truthy (body_prop alice_login ''email'')"
    "truthy (body_prop alice_login ''password'')"
    "findOne demo_lib demo_world [alice] (body_prop alice_login ''email'') = Inr (Some alice)"
    "compareSync demo_lib (body_prop alice_login ''password'') (password alice) = Inr True"
    by (simp_all add: alice_login_props demo_find_alice demo_compare_alice)
  from startup_checks_mongo_uri_only [where pe = demo_env_no_uri and connect_ok = True
      and r = Listening] no_uri
  have a: "startup demo_env_no_uri True Listening = Exited 1"
    by blast
  from startup_checks_mongo_uri_only [where pe = demo_env and connect_ok = True
      and r = Listening and s = None]
  have b: "startup (demo_env\<lparr>JWT_SECRET := None\<rparr>) True Listening
      = startup demo_env True Listening"
    by blast
  from startup_checks_mongo_uri_only [where pe = demo_env_no_secret and L = demo_lib
      and w = demo_world and db = "[alice]" and body = bob_signup
      and h = "''$2a$10$abcdefghijklmnopqrstuv2retnuh''" and u = bob and db' = "[alice, bob]"]
    no_secret bob
  have c: "signup_try demo_lib demo_env_no_secret demo_world [alice] bob_signup
        = ([alice, bob], Inl JwtSecretNotDefined)"
    "status (snd (signupController demo_lib demo_env_no_secret demo_world [alice] bob_signup))
        = 500"
    by blast+
  from startup_checks_mongo_uri_only [where pe = demo_env_no_secret and L = demo_lib
      and w = demo_world and db = "[alice]" and body = alice_login and v = alice]
    no_secret alice
  have d: "login_try demo_lib demo_env_no_secret demo_world [alice] alice_login
        = ([alice], Inl JwtSecretNotDefined)"
    "status (snd (loginController demo_lib demo_env_no_secret demo_world [alice] alice_login))
        = 500"
    by blast+
  show ?thesis
    using no_uri a b serving no_secret bob c alice d
    by - (intro conjI; assumption)
qed

section \<open>The session cookie\<close>

text \<open>
  Claim C7: every registration answered with status 201 and every login answered with
  status 200 sets a cookie named \<open>X_TTMS_access_token\<close> that is HTTP-only, secure
  exactly when \<open>NODE_ENV\<close> is \<open>production\<close>, with SameSite \<open>lax\<close> and a max-age of
  4 days in milliseconds; its token is issued at the time of the request and expires
  4 days, in seconds, later.
\<close>

theorem session_cookie:
  "(status (snd (signupController L pe w db body)) = 201 \<longrightarrow>
      (\<exists>tok. set_cookie (snd (signupController L pe w db body)) =
          Some \<lparr>name = ''X_TTMS_access_token'', val = tok, httpOnly = True,
                secure = (NODE_ENV pe = Some ''production''), sameSite = ''lax'',
                maxAge = 4 * 24 * 60 * 60 * 1000\<rparr>
        \<and> jwt_iat tok = now w div 1000
        \<and> jwt_exp tok = jwt_iat tok + 4 * 24 * 60 * 60))
   \<and> (status (snd (loginController L pe w db body)) = 200 \<longrightarrow>
      (\<exists>tok. set_cookie (snd (loginController L pe w db body)) =
          Some \<lparr>name = ''X_TTMS_access_token'', val = tok, httpOnly = True,
                secure = (NODE_ENV pe = Some ''production''), sameSite = ''lax'',
                maxAge = 4 * 24 * 60 * 60 * 1000\<rparr>
        \<and> jwt_iat tok = now w div 1000
        \<and> jwt_exp tok = jwt_iat tok + 4 * 24 * 60 * 60))"
proof (intro conjI impI)
  assume created: "status (snd (signupController L pe w db body)) = 201"
  from signup_try_cases [of L pe w db body]
  consider
    (sent) code msg where "signup_try L pe w db body = (db, Inr (json code False msg))"
      "code = 400 \<or> code = 409"
    | (thrown) db' e where "signup_try L pe w db body = (db', Inl e)"
    | (ok) u secret where "signup_try L pe w db body =
          (db @ [u], Inr \<lparr>status = 201, success = True,
                message = ''User Created and Logged In Successfully'',
                user = Some (rest_without_password (doc u)),
                set_cookie = Some (access_cookie pe
                  \<lparr>jwt_id = oid u, jwt_iat = now w div 1000,
                   jwt_exp = now w div 1000 + 345600, jwt_key = secret\<rparr>)\<rparr>)"
    by blast
  then show "\<exists>tok. set_cookie (snd (signupController L pe w db body)) =
          Some \<lparr>name = ''X_TTMS_access_token'', val = tok, httpOnly = True,
                secure = (NODE_ENV pe = Some ''production''), sameSite = ''lax'',
                maxAge = 4 * 24 * 60 * 60 * 1000\<rparr>
        \<and> jwt_iat tok = now w div 1000
        \<and> jwt_exp tok = jwt_iat tok + 4 * 24 * 60 * 60"
  proof cases
    case sent
    from signupController_sent [OF sent(1)] created sent(2) show ?thesis
      by (auto simp: json_simps)
  next
    case thrown
    from signupController_thrown [OF thrown] created show ?thesis
      by (simp add: json_simps)
  next
    case ok
    from signupController_sent [OF ok] show ?thesis
      by (simp add: access_cookie_def)
  qed
next
  assume logged_in: "status (snd (loginController L pe w db body)) = 200"
  from login_try_cases [of L pe w db body]
  consider
    (sent) code msg where "login_try L pe w db body = (db, Inr (json code False msg))"
      "code = 400 \<or> code = 404 \<or> code = 401"
    | (thrown) e where "login_try L pe w db body = (db, Inl e)"
    | (ok) u secret where "login_try L pe w db body =
          (db, Inr \<lparr>status = 200, success = True, message = ''Login Success'',
               user = Some (rest_without_password (doc u)),
               set_cookie = Some (access_cookie pe
                 \<lparr>jwt_id = oid u, jwt_iat = now w div 1000,
                  jwt_exp = now w div 1000 + 345600, jwt_key = secret\<rparr>)\<rparr>)"
    by blast
  then show "\<exists>tok. set_cookie (snd (loginController L pe w db body)) =
          Some \<lparr>name = ''X_TTMS_access_token'', val = tok, httpOnly = True,
                secure = (NODE_ENV pe = Some ''production''), sameSite = ''lax'',
                maxAge = 4 * 24 * 60 * 60 * 1000\<rparr>
        \<and> jwt_iat tok = now w div 1000
        \<and> jwt_exp tok = jwt_iat tok + 4 * 24 * 60 * 60"
  proof cases
    case sent
    from loginController_sent [OF sent(1)] logged_in sent(2) show ?thesis
      by (auto simp: json_simps)
  next
    case thrown
    from loginController_thrown [OF thrown] logged_in show ?thesis
      by (simp add: json_simps)
  next
    case ok
    from loginController_sent [OF ok] show ?thesis
      by (simp add: access_cookie_def)
  qed
qed

text \<open>
  Claim C7 on examples: the registration of \<open>bob\<close> and the login of \<open>alice\<close>.
\<close>

theorem session_cookie_witness:
  "status (snd (signupController demo_lib demo_env demo_world [alice] bob_signup)) = 201
   \<and> (\<exists>tok. set_cookie (snd (signupController demo_lib demo_env demo_world [alice] bob_signup)) =
          Some \<lparr>name = ''X_TTMS_access_token'', val = tok, httpOnly = True,
                secure = (NODE_ENV demo_env = Some ''production''), sameSite = ''lax'',
                maxAge = 4 * 24 * 60 * 60 * 1000\<rparr>
        \<and> jwt_iat tok = now demo_world div 1000
        \<and> jwt_exp tok = jwt_iat tok + 4 * 24 * 60 * 60)
   \<and> status (snd (loginController demo_lib demo_env demo_world [alice] alice_login)) = 200
   \<and> (\<exists>tok. set_cookie (snd (loginController demo_lib demo_env demo_world [alice] alice_login)) =
          Some \<lparr>name = ''X_TTMS_access_token'', val = tok, httpOnly = True,
                secure = (NODE_ENV demo_env = Some ''production''), sameSite = ''lax'',
                maxAge = 4 * 24 * 60 * 60 * 1000\<rparr>
        \<and> jwt_iat tok = now demo_world div 1000
        \<and> jwt_exp tok = jwt_iat tok + 4 * 24 * 60 * 60)"
proof -
  have created: "status (snd (signupController demo_lib demo_env demo_world [alice] bob_signup))
      = 201"
    by (simp add: demo_signup_bob)
  have logged_in: "status (snd (loginController demo_lib demo_env demo_world [alice] alice_login))
      = 200"
    by (simp add: demo_login_alice)
  show ?thesis
    using session_cookie [of demo_lib demo_env demo_world "[alice]" bob_signup]
      session_cookie [of demo_lib demo_env demo_world "[alice]" alice_login]
      created logged_in
    by blast
qed

section \<open>The collection\<close>

text \<open>
  Claim C8: a login request leaves the collection as it was, and a registration request
  leaves it as it was or appends one record to it; so no stored record is removed or
  changed.
\<close>

theorem store_only_grows:
  "fst (loginController L pe w db body) = db
   \<and> (fst (signupController L pe w db body) = db
      \<or> (\<exists>u. fst (signupController L pe w db body) = db @ [u]))"
proof
  from login_try_cases [of L pe w db body]
  obtain r where "login_try L pe w db body = (db, r)"
    by blast
  then show "fst (loginController L pe w db body) = db"
    by (cases r) (simp_all add: loginController_def)
next
  from signup_try_cases [of L pe w db body]
  consider r where "signup_try L pe w db body = (db, r)"
    | u r where "signup_try L pe w db body = (db @ [u], r)"
    by blast
  then show "fst (signupController L pe w db body) = db
      \<or> (\<exists>u. fst (signupController L pe w db body) = db @ [u])"
  proof cases
    case 1
    then have "fst (signupController L pe w db body) = db"
      by (cases r) (simp_all add: signupController_def)
    then show ?thesis ..
  next
    case 2
    then have "fst (signupController L pe w db body) = db @ [u]"
      by (cases r) (simp_all add: signupController_def)
    then show ?thesis by blast
  qed
qed

text \<open>
  Claim C8 on examples: the login of \<open>alice\<close> and the registration of \<open>bob\<close>.
\<close>

theorem store_only_grows_witness:
  "fst (loginController demo_lib demo_env demo_world [alice] alice_login) = [alice]
   \<and> (fst (signupController demo_lib demo_env demo_world [alice] bob_signup) = [alice]
      \<or> (\<exists>u. fst (signupController demo_lib demo_env demo_world [alice] bob_signup)
            = [alice] @ [u]))
   \<and> fst (signupController demo_lib demo_env demo_world [alice] bob_signup) = [alice, bob]"
  using store_only_grows [of demo_lib demo_env demo_world "[alice]" alice_login]
    store_only_grows [of demo_lib demo_env demo_world "[alice]" bob_signup]
  by (simp add: demo_signup_bob)

section \<open>Truthiness and the unique user name\<close>

text \<open>
  Claim C9: presence is truthiness. The empty string, 0, \<open>false\<close>, \<open>null\<close> and
  \<open>undefined\<close> are falsy. A registration whose username, email or password is supplied
  as the empty string, 0, \<open>false\<close> or \<open>null\<close>, or is missing from a body that can be
  destructured, is answered with status 400; so is a login whose email or password is.
\<close>

theorem falsy_field_is_absent:
  assumes falsy: "v = JStr [] \<or> v = JNum 0 \<or> v = JBool False \<or> v = JNull
      \<or> (v = JUndefined \<and> \<not> nullish body)"
  shows "\<not> truthy v
    \<and> (body_prop body ''username'' = v \<or> body_prop body ''email'' = v
        \<or> body_prop body ''password'' = v \<longrightarrow>
        status (snd (signupController L pe w db body)) = 400)
    \<and> (body_prop body ''email'' = v \<or> body_prop body ''password'' = v \<longrightarrow>
        status (snd (loginController L pe w db body)) = 400)"
proof (intro conjI impI)
  show absent: "\<not> truthy v"
    using falsy by auto
  {
    assume supplied: "body_prop body ''username'' = v \<or> body_prop body ''email'' = v
        \<or> body_prop body ''password'' = v"
    with falsy have parsed: "\<not> nullish body"
      using supplied_not_nullish [of body _ v] by blast
    from supplied absent have "\<not> truthy (body_prop body ''username'')
        \<or> \<not> truthy (body_prop body ''email'') \<or> \<not> truthy (body_prop body ''password'')"
      by auto
    from signupController_sent [OF signup_try_missing [OF parsed this]]
    show "status (snd (signupController L pe w db body)) = 400"
      by (simp add: json_simps)
  }
  {
    assume supplied: "body_prop body ''email'' = v \<or> body_prop body ''password'' = v"
    with falsy have parsed: "\<not> nullish body"
      using supplied_not_nullish [of body _ v] by blast
    from supplied absent have "\<not> truthy (body_prop body ''email'')
        \<or> \<not> truthy (body_prop body ''password'')"
      by auto
    from loginController_sent [OF login_try_missing [OF parsed this]]
    show "status (snd (loginController L pe w db body)) = 400"
      by (simp add: json_simps)
  }
qed

text \<open>
  Claim C9 on examples: a registration with the empty string as password, a login with
  the empty string as email, and a registration without password.
\<close>

theorem falsy_field_is_absent_witness:
  "\<not> truthy (JStr [])
   \<and> body_prop empty_password_signup ''password'' = JStr []
   \<and> status (snd (signupController demo_lib demo_env demo_world [alice] empty_password_signup))
       = 400
   \<and> body_prop empty_email_login ''email'' = JStr []
   \<and> status (snd (loginController demo_lib demo_env demo_world [alice] empty_email_login)) = 400
   \<and> \<not> nullish no_password_signup
   \<and> body_prop no_password_signup ''password'' = JUndefined
   \<and> status (snd (signupController demo_lib demo_env demo_world [alice] no_password_signup))
       = 400"
proof -
  have parsed: "\<not> nullish no_password_signup"
    by (rule demo_examples_parsed)
  have m: "body_prop no_password_signup ''password'' = JUndefined"
    by (rule no_password_signup_props)
  from falsy_field_is_absent [where v = JUndefined and body = no_password_signup
      and L = demo_lib and pe = demo_env and w = demo_world and db = "[alice]"] parsed m
  have c: "status (snd (signupController demo_lib demo_env demo_world [alice] no_password_signup))
      = 400"
    by blast
  have p: "body_prop empty_password_signup ''password'' = JStr []"
    by (simp add: empty_password_signup_def body_prop_def)
  have e: "body_prop empty_email_login ''email'' = JStr []"
    by (simp add: empty_email_login_def body_prop_def)
  from falsy_field_is_absent [where v = "JStr []" and body = empty_password_signup
      and L = demo_lib and pe = demo_env and w = demo_world and db = "[alice]"] p
  have a: "\<not> truthy (JStr [])"
    "status (snd (signupController demo_lib demo_env demo_world [alice] empty_password_signup))
       = 400"
    by blast+
  from falsy_field_is_absent [where v = "JStr []" and body = empty_email_login
      and L = demo_lib and pe = demo_env and w = demo_world and db = "[alice]"] e
  have b: "status (snd (loginController demo_lib demo_env demo_world [alice] empty_email_login))
      = 400"
    by blast
  show ?thesis
    using a p e b parsed m c by - (intro conjI; assumption)
qed

text \<open>
  Claim C10: the duplicate check of the registration looks at the email only. A request
  with all fields present, whose email lookup finds no record and whose username is that of
  a stored record, is not answered with status 409 but with status 500, and the collection
  is as before. Once the password is hashed the insert is attempted and rejected, and the
  rejection is the exception that the handler catches; with string fields, a reachable
  database and a new \<open>_id\<close>, it is the duplicate key error of the \<open>username\<close>
  index.
\<close>

theorem signup_taken_username:
  assumes present: "truthy (body_prop body ''username'')" "truthy (body_prop body ''email'')"
      "truthy (body_prop body ''password'')"
    and fresh: "findOne L w db (body_prop body ''email'') = Inr None"
    and name: "body_prop body ''username'' = JStr n"
    and taken: "n \<in> set (map username db)"
  shows "signupController L pe w db body = (db, json 500 False ''Server error during signup!'')
    \<and> status (snd (signupController L pe w db body)) \<noteq> 409
    \<and> (hashSync L w (body_prop body ''password'') 10 = Inr h \<longrightarrow>
        (\<exists>e. save L w db (new_User w (body_prop body ''username'') (body_prop body ''email'')
                (JStr h)) = Inl e
             \<and> signup_try L pe w db body = (db, Inl e)))
    \<and> (body_prop body ''email'' = JStr m \<and> body_prop body ''password'' = JStr p
        \<and> bcrypt_hash L p 10 (salt w) \<noteq> [] \<and> \<not> save_fault w
        \<and> fresh_id w \<notin> set (map oid db) \<longrightarrow>
        signup_try L pe w db body = (db, Inl (DuplicateKey ''username'')))"
proof -
  have rejected: "\<exists>e. save L w db (new_User w (body_prop body ''username'')
      (body_prop body ''email'') (JStr h')) = Inl e \<and> signup_try L pe w db body = (db, Inl e)"
    if hashed: "hashSync L w (body_prop body ''password'') 10 = Inr h'" for h'
  proof -
    from save_taken_username [OF taken] obtain e
      where "save L w db (new_User w (body_prop body ''username'') (body_prop body ''email'')
          (JStr h')) = Inl e"
      unfolding name by blast
    with signup_try_save_error [OF present fresh hashed] show ?thesis
      by blast
  qed
  have thrown: "\<exists>e. signup_try L pe w db body = (db, Inl e)"
  proof (cases "hashSync L w (body_prop body ''password'') 10")
    case (Inl e)
    from signup_try_hash_error [OF present fresh Inl] show ?thesis
      by blast
  next
    case (Inr h')
    from rejected [OF Inr] show ?thesis
      by blast
  qed
  then have response: "signupController L pe w db body =
      (db, json 500 False ''Server error during signup!'')"
    using signupController_thrown by blast
  have duplicate: "signup_try L pe w db body = (db, Inl (DuplicateKey ''username''))"
    if strings: "body_prop body ''email'' = JStr m \<and> body_prop body ''password'' = JStr p
        \<and> bcrypt_hash L p 10 (salt w) \<noteq> [] \<and> \<not> save_fault w
        \<and> fresh_id w \<notin> set (map oid db)"
  proof -
    from strings have hashed: "hashSync L w (body_prop body ''password'') 10
        = Inr (bcrypt_hash L p 10 (salt w))"
      by (simp add: hashSync_def)
    from present name strings have "n \<noteq> []" "m \<noteq> []"
      by auto
    with taken strings have "save L w db (new_User w (JStr n) (JStr m)
        (JStr (bcrypt_hash L p 10 (salt w)))) = Inl (DuplicateKey ''username'')"
      by (intro save_taken_username_error) simp_all
    with strings name have "save L w db (new_User w (body_prop body ''username'')
        (body_prop body ''email'') (JStr (bcrypt_hash L p 10 (salt w))))
        = Inl (DuplicateKey ''username'')"
      by simp
    from signup_try_save_error [OF present fresh hashed this] show ?thesis .
  qed
  show ?thesis
    using response rejected duplicate by (simp add: json_simps)
qed

text \<open>
  Claim C10 on an example: a registration as \<open>alice\<close> under a new email.
\<close>

theorem signup_taken_username_witness:
  "truthy (body_prop taken_name_signup ''username'')
   \<and> truthy (body_prop taken_name_signup ''email'')
   \<and> truthy (body_prop taken_name_signup ''password'')
   \<and> findOne demo_lib demo_world [alice] (body_prop taken_name_signup ''email'') = Inr None
   \<and> body_prop taken_name_signup ''username'' = JStr ''alice''
   \<and> ''alice'' \<in> set (map username [alice])
   \<and> body_prop taken_name_signup ''email'' = JStr ''carol@example.com''
   \<and> body_prop taken_name_signup ''password'' = JStr ''opensesame''
   \<and> bcrypt_hash demo_lib ''opensesame'' 10 (salt demo_world) \<noteq> []
   \<and> \<not> save_fault demo_world
   \<and> fresh_id demo_world \<notin> set (map oid [alice])
   \<and> signupController demo_lib demo_env demo_world [alice] taken_name_signup
        = ([alice], json 500 False ''Server error during signup!'')
   \<and> status (snd (signupController demo_lib demo_env demo_world [alice] taken_name_signup))
        \<noteq> 409
   \<and> signup_try demo_lib demo_env demo_world [alice] taken_name_signup
        = ([alice], Inl (DuplicateKey ''username''))"
proof -
  have present: "truthy (body_prop taken_name_signup ''username'')"
    "truthy (body_prop taken_name_signup ''email'')"
    "truthy (body_prop taken_name_signup ''password'')"
    by (simp_all add: taken_name_signup_props)
  have fresh: "findOne demo_lib demo_world [alice] (body_prop taken_name_signup ''email'')
      = Inr None"
    by (simp add: taken_name_signup_props demo_find_carol)
  have name: "body_prop taken_name_signup ''username'' = JStr ''alice''"
    by (simp add: taken_name_signup_props)
  have taken: "''alice'' \<in> set (map username [alice])"
    by (simp add: alice_def)
  have strings: "body_prop taken_name_signup ''email'' = JStr ''carol@example.com''"
    "body_prop taken_name_signup ''password'' = JStr ''opensesame''"
    by (simp_all add: taken_name_signup_props)
  have healthy: "bcrypt_hash demo_lib ''opensesame'' 10 (salt demo_world) \<noteq> []"
    "\<not> save_fault demo_world" "fresh_id demo_world \<notin> set (map oid [alice])"
    by (simp_all add: demo_lib_def demo_world_def alice_def)
  note main = signup_taken_username [OF present fresh name taken, where pe = demo_env
      and m = "''carol@example.com''" and p = "''opensesame''"]
  from main have a: "signupController demo_lib demo_env demo_world [alice] taken_name_signup
        = ([alice], json 500 False ''Server error during signup!'')"
    "status (snd (signupController demo_lib demo_env demo_world [alice] taken_name_signup))
        \<noteq> 409"
    by blast+
  from main strings healthy
  have b: "signup_try demo_lib demo_env demo_world [alice] taken_name_signup
        = ([alice], Inl (DuplicateKey ''username''))"
    by blast
  show ?thesis
    using present fresh name taken strings healthy a b by - (intro conjI; assumption)
qed

end
